theory Spec2Isabelle
  imports Main
begin

section \<open>VoiceMaster: the private voice-room lifecycle manager\<close>

text \<open>
  A shallow embedding of the VoiceMaster subsystem: the Room and VoiceCreator models, the
  voice-state handler (class \<open>VoiceStateUpdateEvent\<close>: \<open>execute\<close>, \<open>cancelRoomDeletion\<close>,
  \<open>handleVoiceJoin\<close>, \<open>handleVoiceLeave\<close>, \<open>handleVoiceSwitch\<close>, \<open>createPrivateRoom\<close>), the
  startup sweep \<open>cleanupVoiceMasterRooms\<close> of the ready event, the room-control buttons
  Lock, Claim, Increase and Decrease, and the \<open>vcreject\<close> command. Handlers are functions
  from a world (registry, channels, voice states, timers, observable output) to the world
  they leave behind; everything the platform or the database decides is read from an
  explicit record of outcomes. Message texts are the source's, without their emoji.
\<close>

subsection \<open>Identifiers, thrown values, strings\<close>

type_synonym snowflake = string

text \<open>A JavaScript \<open>throw\<close> carries any value; the handlers test \<open>instanceof Error\<close>
  and then look into \<open>message\<close>. A value that is not an \<open>Error\<close> is kept as the string
  \<open>String(value)\<close> gives.\<close>

datatype Thrown = Error string | NonError string

fun is_prefix :: "string \<Rightarrow> string \<Rightarrow> bool" where
  "is_prefix [] ys = True"
| "is_prefix (x # xs) [] = False"
| "is_prefix (x # xs) (y # ys) = (x = y \<and> is_prefix xs ys)"

text \<open>\<open>String.prototype.includes\<close>: the needle occurs as a contiguous substring.\<close>

fun str_includes :: "string \<Rightarrow> string \<Rightarrow> bool" where
  "str_includes [] needle = (needle = [])"
| "str_includes (c # cs) needle = (is_prefix needle (c # cs) \<or> str_includes cs needle)"

text \<open>A number in a template literal: its decimal digits.\<close>

fun show_nat :: "nat \<Rightarrow> string" where
  "show_nat n =
     (if n < 10 then [char_of (48 + n)] else show_nat (n div 10) @ [char_of (48 + n mod 10)])"

declare show_nat.simps [simp del]

fun message_includes :: "Thrown \<Rightarrow> string \<Rightarrow> bool" where
  "message_includes (Error msg) needle = str_includes msg needle"
| "message_includes (NonError _) needle = False"

subsection \<open>The Room model (models/Room)\<close>

text \<open>The \<open>IRoom\<close> document. The two timestamps that mongoose maintains are left out:
  no handler reads them.\<close>

record Room =
  channelId :: snowflake
  guildId :: snowflake
  ownerId :: snowflake
  locked :: bool
  hidden :: bool
  limit :: "nat option"

text \<open>\<open>Partial<IRoom>\<close> as the handlers pass it to \<open>updateRoom\<close>: a field that is
  present is set, a field that is absent is left as it is.\<close>

record RoomPatch =
  set_ownerId :: "snowflake option"
  set_locked :: "bool option"
  set_hidden :: "bool option"
  set_limit :: "nat option"

definition no_patch :: RoomPatch where
  "no_patch = \<lparr>set_ownerId = None, set_locked = None, set_hidden = None, set_limit = None\<rparr>"

definition apply_patch :: "RoomPatch \<Rightarrow> Room \<Rightarrow> Room" where
  "apply_patch p r =
     r\<lparr>ownerId := (case set_ownerId p of None \<Rightarrow> ownerId r | Some v \<Rightarrow> v),
       locked := (case set_locked p of None \<Rightarrow> locked r | Some v \<Rightarrow> v),
       hidden := (case set_hidden p of None \<Rightarrow> hidden r | Some v \<Rightarrow> v),
       limit := (case set_limit p of None \<Rightarrow> limit r | Some v \<Rightarrow> Some v)\<rparr>"

text \<open>The collection is a list of documents. \<open>findOne\<close> returns the first match,
  \<open>findOneAndUpdate\<close> rewrites the first match, \<open>deleteOne\<close> removes the first match.\<close>

definition findRoom :: "Room list \<Rightarrow> snowflake \<Rightarrow> Room option" where
  "findRoom rs c = find (\<lambda>r. channelId r = c) rs"

fun update_first :: "snowflake \<Rightarrow> (Room \<Rightarrow> Room) \<Rightarrow> Room list \<Rightarrow> Room list" where
  "update_first c f [] = []"
| "update_first c f (r # rs) = (if channelId r = c then f r # rs else r # update_first c f rs)"

fun delete_first :: "snowflake \<Rightarrow> Room list \<Rightarrow> Room list" where
  "delete_first c [] = []"
| "delete_first c (r # rs) = (if channelId r = c then rs else r # delete_first c rs)"

subsection \<open>The platform: channels, permissions, voice states\<close>

datatype ChannelType = GuildText | GuildVoice | GuildCategory | GuildStageVoice

text \<open>The numbers of the platform's \<open>ChannelType\<close> enum, as a template string prints
  them.\<close>

fun type_code :: "ChannelType \<Rightarrow> nat" where
  "type_code GuildText = 0"
| "type_code GuildVoice = 2"
| "type_code GuildCategory = 4"
| "type_code GuildStageVoice = 13"

datatype Permission = Connect | ManageChannels | ManageRoles | MoveMembers | Speak | ViewChannel

text \<open>One permission overwrite entry: target (role or member id), permission, and
  \<open>True\<close> for allow, \<open>False\<close> for deny.\<close>

type_synonym Overwrite = "snowflake \<times> Permission \<times> bool"

record Channel =
  chGuild :: snowflake
  chType :: ChannelType
  chName :: string
  chParent :: "snowflake option"
  userLimit :: nat
  permissionOverwrites :: "Overwrite list"

text \<open>\<open>permissionOverwrites.edit(target, {P: v})\<close> replaces the entry of that target
  and permission.\<close>

definition edit_overwrite :: "snowflake \<Rightarrow> Permission \<Rightarrow> bool \<Rightarrow> Overwrite list \<Rightarrow> Overwrite list" where
  "edit_overwrite t p v ows = (t, p, v) # filter (\<lambda>(t', p', _). \<not> (t' = t \<and> p' = p)) ows"

datatype Level = Debug | Info | Warn | Err

text \<open>What a handler lets out: replies to the invoker, log lines, an exception that
  leaves the handler uncaught, and the reasons the platform records with a disconnect or
  a channel deletion it carried out.\<close>

datatype Output =
    Reply string | Log Level string | Uncaught Thrown
  | Disconnected snowflake string | ChannelDeleted snowflake string

datatype Callback = SettleCheck snowflake snowflake | FinalDeletion snowflake snowflake

record Timer =
  due :: nat
  callback :: Callback

datatype DbOp =
    GetVoiceCreator snowflake | GetRoom snowflake | GetAllRooms
  | CreateRoom snowflake | UpdateRoom snowflake | DeleteRoom snowflake

datatype ApiOp =
    FetchGuild snowflake | FetchChannel snowflake | RefetchChannel snowflake
  | FetchMember snowflake snowflake
  | ChannelCreate | ChannelDelete snowflake
  | SetChannel snowflake | VoiceDisconnect snowflake
  | OverwriteEdit snowflake | SetUserLimit snowflake

record VoiceCreator =
  vcGuildId :: snowflake
  categoryId :: snowflake
  voiceChannelId :: snowflake
  textChannelId :: snowflake

text \<open>
  The world a handler runs in. \<open>rooms\<close> and \<open>creators\<close> are the two collections;
  \<open>channels\<close> and \<open>voice\<close> (member id, channel id) are the platform's state;
  \<open>guilds\<close> are the guilds the client resolves; \<open>deletionTimeouts\<close> is the handler's
  map from channel id to timer handle, \<open>timers\<close> the armed timers of the event loop
  under their handles, \<open>now\<close> the clock in milliseconds.
\<close>

record World =
  rooms :: "Room list"
  creators :: "VoiceCreator list"
  guilds :: "snowflake list"
  channels :: "snowflake \<rightharpoonup> Channel"
  voice :: "(snowflake \<times> snowflake) list"
  deletionTimeouts :: "(snowflake \<times> nat) list"
  timers :: "(nat \<times> Timer) list"
  nextHandle :: nat
  now :: nat
  out :: "Output list"

text \<open>
  What the surroundings decide during one handler invocation: which database and API
  calls reject (and with what), the two reads of \<open>mongoose.connection.readyState\<close>, the
  id of the bot user, the id the platform gives a created channel, and the platform's
  permission resolution \<open>channel.permissionsFor(member)\<close> (\<open>None\<close> is its \<open>null\<close>).
\<close>

record Ext =
  dbFault :: "DbOp \<Rightarrow> Thrown option"
  apiFault :: "ApiOp \<Rightarrow> Thrown option"
  readyStateAtEntry :: nat
  readyStateAtWrite :: nat
  botId :: snowflake
  newChannelId :: snowflake
  permissionsFor :: "Channel \<Rightarrow> snowflake \<Rightarrow> Permission list option"

definition emit :: "Output \<Rightarrow> World \<Rightarrow> World" where
  "emit e w = w\<lparr>out := out w @ [e]\<rparr>"

definition reply :: "string \<Rightarrow> World \<Rightarrow> World" where
  "reply s w = emit (Reply s) w"

definition logger :: "Level \<Rightarrow> string \<Rightarrow> World \<Rightarrow> World" where
  "logger l s w = emit (Log l s) w"

definition members_of :: "World \<Rightarrow> snowflake \<Rightarrow> snowflake list" where
  "members_of w c = map fst (filter (\<lambda>(m, c'). c' = c) (voice w))"

text \<open>\<open>permissions?.has(P) ?? false\<close>.\<close>

definition has_permission :: "Ext \<Rightarrow> Channel \<Rightarrow> snowflake \<Rightarrow> Permission \<Rightarrow> bool" where
  "has_permission x ch m p =
     (case permissionsFor x ch m of None \<Rightarrow> False | Some ps \<Rightarrow> p \<in> set ps)"

subsubsection \<open>Registry calls\<close>

definition getRoom :: "Ext \<Rightarrow> World \<Rightarrow> snowflake \<Rightarrow> Thrown + Room option" where
  "getRoom x w c =
     (case dbFault x (GetRoom c) of Some e \<Rightarrow> Inl e | None \<Rightarrow> Inr (findRoom (rooms w) c))"

definition updateRoom :: "Ext \<Rightarrow> snowflake \<Rightarrow> RoomPatch \<Rightarrow> World \<Rightarrow> Thrown + World" where
  "updateRoom x c p w =
     (case dbFault x (UpdateRoom c) of Some e \<Rightarrow> Inl e
      | None \<Rightarrow> Inr (w\<lparr>rooms := update_first c (apply_patch p) (rooms w)\<rparr>))"

definition deleteRoom :: "Ext \<Rightarrow> snowflake \<Rightarrow> World \<Rightarrow> Thrown + World" where
  "deleteRoom x c w =
     (case dbFault x (DeleteRoom c) of Some e \<Rightarrow> Inl e
      | None \<Rightarrow> Inr (w\<lparr>rooms := delete_first c (rooms w)\<rparr>))"

text \<open>\<open>createRoom\<close> on its simple path (no validation, no population, no transaction),
  the only one the handler uses: look for an existing row, then insert. Its \<open>catch\<close>
  rethrows an \<open>Error\<close> and wraps anything else into one.\<close>

definition createRoom :: "Ext \<Rightarrow> Room \<Rightarrow> World \<Rightarrow> Thrown + World" where
  "createRoom x r w =
     (case dbFault x (CreateRoom (channelId r)) of
        Some (Error msg) \<Rightarrow> Inl (Error msg)
      | Some (NonError v) \<Rightarrow> Inl (Error (''Failed to create room: '' @ v))
      | None \<Rightarrow>
         (case findRoom (rooms w) (channelId r) of
            Some _ \<Rightarrow> Inl (Error (''Room with channelId '' @ channelId r @ '' already exists''))
          | None \<Rightarrow> Inr (w\<lparr>rooms := rooms w @ [r]\<rparr>)))"

definition getVoiceCreatorByGuildId :: "Ext \<Rightarrow> World \<Rightarrow> snowflake \<Rightarrow> Thrown + VoiceCreator option" where
  "getVoiceCreatorByGuildId x w g =
     (case dbFault x (GetVoiceCreator g) of Some e \<Rightarrow> Inl e
      | None \<Rightarrow> Inr (find (\<lambda>v. vcGuildId v = g) (creators w)))"

subsubsection \<open>Platform calls\<close>

text \<open>A member's current voice channel, as \<open>member.voice.channel\<close> resolves it in a
  guild: the channel of the member's voice state, when that channel is one of the guild.\<close>

definition voice_channel :: "World \<Rightarrow> snowflake \<Rightarrow> snowflake \<Rightarrow> (snowflake \<times> Channel) option" where
  "voice_channel w g u =
     (case map_of (voice w) u of None \<Rightarrow> None
      | Some c \<Rightarrow> (case channels w c of None \<Rightarrow> None
          | Some ch \<Rightarrow> if chGuild ch = g then Some (c, ch) else None))"

definition permissionOverwrites_edit ::
    "Ext \<Rightarrow> snowflake \<Rightarrow> snowflake \<Rightarrow> Permission \<Rightarrow> bool \<Rightarrow> World \<Rightarrow> Thrown + World" where
  "permissionOverwrites_edit x c t p v w =
     (case apiFault x (OverwriteEdit c) of Some e \<Rightarrow> Inl e
      | None \<Rightarrow> Inr (w\<lparr>channels := (\<lambda>k. if k = c
           then map_option (\<lambda>ch. ch\<lparr>permissionOverwrites := edit_overwrite t p v (permissionOverwrites ch)\<rparr>)
                  (channels w k)
           else channels w k)\<rparr>))"

definition setUserLimit :: "Ext \<Rightarrow> snowflake \<Rightarrow> nat \<Rightarrow> World \<Rightarrow> Thrown + World" where
  "setUserLimit x c n w =
     (case apiFault x (SetUserLimit c) of Some e \<Rightarrow> Inl e
      | None \<Rightarrow> Inr (w\<lparr>channels := (\<lambda>k. if k = c
           then map_option (\<lambda>ch. ch\<lparr>userLimit := n\<rparr>) (channels w k)
           else channels w k)\<rparr>))"

text \<open>\<open>member.voice.disconnect(reason)\<close>: the member's voice state goes.\<close>

definition voice_disconnect :: "Ext \<Rightarrow> snowflake \<Rightarrow> string \<Rightarrow> World \<Rightarrow> Thrown + World" where
  "voice_disconnect x m reason w =
     (case apiFault x (VoiceDisconnect m) of Some e \<Rightarrow> Inl e
      | None \<Rightarrow> Inr (emit (Disconnected m reason)
                      (w\<lparr>voice := filter (\<lambda>(m', _). m' \<noteq> m) (voice w)\<rparr>)))"

text \<open>\<open>member.voice.setChannel(c)\<close>: the member's voice state moves to \<open>c\<close>.\<close>

definition voice_setChannel :: "Ext \<Rightarrow> snowflake \<Rightarrow> snowflake \<Rightarrow> World \<Rightarrow> Thrown + World" where
  "voice_setChannel x m c w =
     (case apiFault x (SetChannel m) of Some e \<Rightarrow> Inl e
      | None \<Rightarrow> Inr (w\<lparr>voice := (m, c) # filter (\<lambda>(m', _). m' \<noteq> m) (voice w)\<rparr>))"

text \<open>\<open>channel.delete(reason)\<close>: the channel goes, and with it the voice states of
  whoever was connected to it.\<close>

definition channel_delete :: "Ext \<Rightarrow> snowflake \<Rightarrow> string \<Rightarrow> World \<Rightarrow> Thrown + World" where
  "channel_delete x c reason w =
     (case apiFault x (ChannelDelete c) of Some e \<Rightarrow> Inl e
      | None \<Rightarrow> Inr (emit (ChannelDeleted c reason)
                      (w\<lparr>channels := (\<lambda>k. if k = c then None else channels w k),
                         voice := filter (\<lambda>(_, c'). c' \<noteq> c) (voice w)\<rparr>)))"

text \<open>\<open>guild.channels.fetch(id)\<close>: the channel of that guild, or a rejection (the
  library rejects for an unknown channel and for a channel of another guild).\<close>

definition channels_fetch :: "Ext \<Rightarrow> ApiOp \<Rightarrow> World \<Rightarrow> snowflake \<Rightarrow> snowflake \<Rightarrow> Thrown + Channel option" where
  "channels_fetch x op w g c =
     (case apiFault x op of Some e \<Rightarrow> Inl e
      | None \<Rightarrow> (case channels w c of None \<Rightarrow> Inl (Error ''Unknown Channel'')
          | Some ch \<Rightarrow> if chGuild ch = g then Inr (Some ch)
                       else Inl (Error ''GuildChannelUnowned'')))"

text \<open>\<open>promise.catch(() => null)\<close>.\<close>

definition catch_null :: "Thrown + 'a option \<Rightarrow> 'a option" where
  "catch_null r = (case r of Inl _ \<Rightarrow> None | Inr v \<Rightarrow> v)"

text \<open>\<open>promise.catch(() => {})\<close> on a call that changes the world.\<close>

definition catch_ignore :: "World \<Rightarrow> Thrown + World \<Rightarrow> World" where
  "catch_ignore w r = (case r of Inl _ \<Rightarrow> w | Inr w' \<Rightarrow> w')"

subsection \<open>Room-control buttons (components/buttons)\<close>

record ButtonInteraction =
  bi_guild :: "snowflake option"
  bi_user :: snowflake

text \<open>\<open>LockButton.execute\<close>.\<close>

definition LockButton_execute :: "Ext \<Rightarrow> ButtonInteraction \<Rightarrow> World \<Rightarrow> World" where
  "LockButton_execute x i w =
     (case bi_guild i of None \<Rightarrow> w | Some g \<Rightarrow>
      (case voice_channel w g (bi_user i) of None \<Rightarrow> w | Some (c, ch) \<Rightarrow>
       (case getRoom x w c of Inl e \<Rightarrow> emit (Uncaught e) w | Inr None \<Rightarrow> w
        | Inr (Some room) \<Rightarrow>
           if ownerId room \<noteq> bi_user i then reply ''You are not the owner of this room.'' w
           else if chType ch = GuildVoice then
             (case permissionOverwrites_edit x c g Connect False w of
                Inl e \<Rightarrow> emit (Uncaught e) w
              | Inr w1 \<Rightarrow>
                 (case updateRoom x c (no_patch\<lparr>set_locked := Some True\<rparr>) w1 of
                    Inl e \<Rightarrow> emit (Uncaught e) w1
                  | Inr w2 \<Rightarrow> reply ''Locked the room.'' w2))
           else w)))"

text \<open>\<open>ClaimButton.execute\<close>.\<close>

definition ClaimButton_execute :: "Ext \<Rightarrow> ButtonInteraction \<Rightarrow> World \<Rightarrow> World" where
  "ClaimButton_execute x i w =
     (case bi_guild i of None \<Rightarrow> w | Some g \<Rightarrow>
      (case voice_channel w g (bi_user i) of None \<Rightarrow> w | Some (c, ch) \<Rightarrow>
       (case getRoom x w c of Inl e \<Rightarrow> emit (Uncaught e) w | Inr None \<Rightarrow> w
        | Inr (Some room) \<Rightarrow>
           if chType ch = GuildVoice then
             (if find (\<lambda>m. m = ownerId room) (members_of w c) \<noteq> None
              then reply ''Owner is in the room.'' w
              else
                (case updateRoom x c (no_patch\<lparr>set_ownerId := Some (bi_user i)\<rparr>) w of
                   Inl e \<Rightarrow> emit (Uncaught e) w
                 | Inr w1 \<Rightarrow> reply ''Claimed the room.'' w1))
           else w)))"

text \<open>\<open>IncreaseButton.execute\<close>. \<open>voice.userLimit || 0\<close> is the limit itself.\<close>

definition IncreaseButton_execute :: "Ext \<Rightarrow> ButtonInteraction \<Rightarrow> World \<Rightarrow> World" where
  "IncreaseButton_execute x i w =
     (case bi_guild i of None \<Rightarrow> w | Some g \<Rightarrow>
      (case voice_channel w g (bi_user i) of None \<Rightarrow> w | Some (c, ch) \<Rightarrow>
       (case getRoom x w c of Inl e \<Rightarrow> emit (Uncaught e) w | Inr None \<Rightarrow> w
        | Inr (Some room) \<Rightarrow>
           if ownerId room \<noteq> bi_user i then reply ''You are not the owner of this room.'' w
           else if chType ch = GuildVoice then
             (let currentLimit = userLimit ch in
              if currentLimit \<ge> 99 then reply ''Maximum limit reached (99).'' w
              else
                (let newLimit = currentLimit + 1 in
                 (case setUserLimit x c newLimit w of
                    Inl e \<Rightarrow> emit (Uncaught e) w
                  | Inr w1 \<Rightarrow>
                     (case updateRoom x c (no_patch\<lparr>set_limit := Some newLimit\<rparr>) w1 of
                        Inl e \<Rightarrow> emit (Uncaught e) w1
                      | Inr w2 \<Rightarrow>
                          reply (''Increased the limit to '' @ show_nat newLimit @ ''.'') w2))))
           else w)))"

text \<open>\<open>DecreaseButton.execute\<close>. The update carries \<open>limit\<close> only when the new limit is
  not 0.\<close>

definition DecreaseButton_execute :: "Ext \<Rightarrow> ButtonInteraction \<Rightarrow> World \<Rightarrow> World" where
  "DecreaseButton_execute x i w =
     (case bi_guild i of None \<Rightarrow> w | Some g \<Rightarrow>
      (case voice_channel w g (bi_user i) of None \<Rightarrow> w | Some (c, ch) \<Rightarrow>
       (case getRoom x w c of Inl e \<Rightarrow> emit (Uncaught e) w | Inr None \<Rightarrow> w
        | Inr (Some room) \<Rightarrow>
           if ownerId room \<noteq> bi_user i then reply ''You are not the owner of this room.'' w
           else if chType ch = GuildVoice then
             (let currentLimit = userLimit ch in
              if currentLimit \<le> 0 then reply ''Minimum limit reached (0 = unlimited).'' w
              else
                (let newLimit = max 0 (currentLimit - 1) in
                 (case setUserLimit x c newLimit w of
                    Inl e \<Rightarrow> emit (Uncaught e) w
                  | Inr w1 \<Rightarrow>
                     (case updateRoom x c
                             (if newLimit \<noteq> 0 then no_patch\<lparr>set_limit := Some newLimit\<rparr> else no_patch) w1 of
                        Inl e \<Rightarrow> emit (Uncaught e) w1
                      | Inr w2 \<Rightarrow>
                          reply (''Decreased the limit to ''
                                   @ (if newLimit = 0 then ''unlimited'' else show_nat newLimit)
                                   @ ''.'') w2))))
           else w)))"


subsection \<open>The vcreject command (commands/voice/vcreject.ts)\<close>

record CommandInteraction =
  ci_guild :: "snowflake option"
  ci_member :: "snowflake option"
  ci_target :: snowflake

text \<open>\<open>guild.members.fetch(id)\<close>: the platform alone decides whether it resolves.\<close>

definition members_fetch :: "Ext \<Rightarrow> snowflake \<Rightarrow> snowflake \<Rightarrow> Thrown + snowflake option" where
  "members_fetch x g u = (case apiFault x (FetchMember g u) of Some e \<Rightarrow> Inl e | None \<Rightarrow> Inr (Some u))"

text \<open>\<open>VcRejectCommand.execute\<close>. The body of the \<open>try\<close> is \<open>vcreject_try\<close>; a throw
  inside it leaves the world as the calls before it made it.\<close>

definition vcreject_try :: "Ext \<Rightarrow> snowflake \<Rightarrow> snowflake \<Rightarrow> World \<Rightarrow> (Thrown \<times> World) + World" where
  "vcreject_try x c t w =
     (case permissionOverwrites_edit x c t Connect False w of
        Inl e \<Rightarrow> Inl (e, w)
      | Inr w1 \<Rightarrow>
         (case (if map_of (voice w1) t = Some c then voice_disconnect x t ''Rejected by channel owner'' w1 else Inr w1) of
            Inl e \<Rightarrow> Inl (e, w1)
          | Inr w2 \<Rightarrow>
             Inr (reply (''<@'' @ t @ ''> has been rejected from <#'' @ c @ ''>'') w2)))"

definition VcRejectCommand_execute :: "Ext \<Rightarrow> CommandInteraction \<Rightarrow> World \<Rightarrow> World" where
  "VcRejectCommand_execute x i w =
     (case (ci_guild i, ci_member i) of
        (Some g, Some caller) \<Rightarrow>
          (case members_fetch x g caller of
             Inl e \<Rightarrow> emit (Uncaught e) w
           | Inr _ \<Rightarrow>
              (case voice_channel w g caller of
                 None \<Rightarrow> reply ''You must be in a voice channel to use this command.'' w
               | Some (c, ch) \<Rightarrow>
                  (case catch_null (members_fetch x g (ci_target i)) of
                     None \<Rightarrow> reply ''User not found.'' w
                   | Some t \<Rightarrow>
                      (case vcreject_try x c t w of
                         Inr w' \<Rightarrow> w'
                       | Inl (e, w') \<Rightarrow>
                          reply ''Failed to reject user. Please check my permissions.''
                            (logger Err ''VcReject error:'' w')))))
      | _ \<Rightarrow> reply ''This command can only be used in a server.'' w)"

subsection \<open>The voice-state handler (class VoiceStateUpdateEvent)\<close>

record Member =
  memberId :: snowflake
  username :: string
  tag :: string

text \<open>A voice-state snapshot. Its \<open>channel\<close> is a getter: the channel id looked up among
  the channels of the snapshot's guild, \<open>null\<close> when there is no id or no such channel.\<close>

record VoiceState =
  vs_guild :: "snowflake option"
  vs_channelId :: "snowflake option"
  vs_member :: "Member option"

definition state_channel :: "World \<Rightarrow> VoiceState \<Rightarrow> (snowflake \<times> Channel) option" where
  "state_channel w st =
     (case (vs_guild st, vs_channelId st) of
        (Some g, Some c) \<Rightarrow>
          (case channels w c of None \<Rightarrow> None
           | Some ch \<Rightarrow> if chGuild ch = g then Some (c, ch) else None)
      | _ \<Rightarrow> None)"

fun join_comma :: "string list \<Rightarrow> string" where
  "join_comma [] = []"
| "join_comma [s] = s"
| "join_comma (s # t # ss) = s @ '', '' @ join_comma (t # ss)"

subsubsection \<open>Timers\<close>

text \<open>\<open>setTimeout(cb, delay)\<close> arms a timer under a new handle; \<open>clearTimeout\<close> disarms
  it; \<open>run_timer\<close> is the event loop running an armed timer, no earlier than it is due.\<close>

definition setTimeout :: "Callback \<Rightarrow> nat \<Rightarrow> World \<Rightarrow> nat \<times> World" where
  "setTimeout cb delay w =
     (nextHandle w,
      w\<lparr>timers := timers w @ [(nextHandle w, \<lparr>due = now w + delay, callback = cb\<rparr>)],
        nextHandle := nextHandle w + 1\<rparr>)"

definition clearTimeout :: "nat \<Rightarrow> World \<Rightarrow> World" where
  "clearTimeout h w = w\<lparr>timers := filter (\<lambda>(h', _). h' \<noteq> h) (timers w)\<rparr>"

definition deletionTimeouts_delete :: "snowflake \<Rightarrow> World \<Rightarrow> World" where
  "deletionTimeouts_delete c w =
     w\<lparr>deletionTimeouts := filter (\<lambda>(k, _). k \<noteq> c) (deletionTimeouts w)\<rparr>"

definition deletionTimeouts_set :: "snowflake \<Rightarrow> nat \<Rightarrow> World \<Rightarrow> World" where
  "deletionTimeouts_set c h w =
     w\<lparr>deletionTimeouts := (c, h) # filter (\<lambda>(k, _). k \<noteq> c) (deletionTimeouts w)\<rparr>"

definition cancelRoomDeletion :: "snowflake \<Rightarrow> World \<Rightarrow> World" where
  "cancelRoomDeletion c w =
     (case map_of (deletionTimeouts w) c of
        None \<Rightarrow> w
      | Some h \<Rightarrow>
          logger Debug (''Cancelled deletion for room '' @ c @ '' - user rejoined'')
            (deletionTimeouts_delete c (clearTimeout h w)))"

subsubsection \<open>Small wrappers\<close>

definition disconnect_quiet :: "Ext \<Rightarrow> snowflake \<Rightarrow> string \<Rightarrow> World \<Rightarrow> World" where
  "disconnect_quiet x m reason w = catch_ignore w (voice_disconnect x m reason w)"

definition deleteRoom_quiet :: "Ext \<Rightarrow> snowflake \<Rightarrow> World \<Rightarrow> World" where
  "deleteRoom_quiet x c w = catch_ignore w (deleteRoom x c w)"

text \<open>\<open>client.guilds.fetch(id).catch(() => null)\<close>.\<close>

definition guilds_fetch :: "Ext \<Rightarrow> World \<Rightarrow> snowflake \<Rightarrow> snowflake option" where
  "guilds_fetch x w g =
     (case apiFault x (FetchGuild g) of Some _ \<Rightarrow> None
      | None \<Rightarrow> if g \<in> set (guilds w) then Some g else None)"

text \<open>\<open>guild.channels.fetch(id).catch(() => null)\<close> followed by the test
  \<open>!channel || channel.type !== ChannelType.GuildVoice\<close>: the voice channel, if it is one.\<close>

definition fetch_voice_channel :: "Ext \<Rightarrow> World \<Rightarrow> snowflake \<Rightarrow> snowflake \<Rightarrow> Channel option" where
  "fetch_voice_channel x w g c =
     (case catch_null (channels_fetch x (FetchChannel c) w g c) of
        None \<Rightarrow> None
      | Some ch \<Rightarrow> if chType ch \<noteq> GuildVoice then None else Some ch)"

text \<open>\<open>guild.channels.create\<close> of a voice channel.\<close>

definition channels_create ::
    "Ext \<Rightarrow> snowflake \<Rightarrow> string \<Rightarrow> snowflake \<Rightarrow> Overwrite list \<Rightarrow> World \<Rightarrow> Thrown + (snowflake \<times> World)" where
  "channels_create x g name parent ows w =
     (case apiFault x ChannelCreate of Some e \<Rightarrow> Inl e
      | None \<Rightarrow>
         Inr (newChannelId x,
              w\<lparr>channels := (channels w)(newChannelId x \<mapsto>
                   \<lparr>chGuild = g, chType = GuildVoice, chName = name, chParent = Some parent,
                    userLimit = 0, permissionOverwrites = ows\<rparr>)\<rparr>))"

subsubsection \<open>createPrivateRoom\<close>

text \<open>The \<open>catch (dbError)\<close> block: the log lines, then the clean-up of the channel.\<close>

definition room_save_failed :: "Ext \<Rightarrow> snowflake \<Rightarrow> snowflake \<Rightarrow> Thrown \<Rightarrow> World \<Rightarrow> World" where
  "room_save_failed x n m e w =
     (let w1 = logger Err ''[VOICEMASTER] Failed to save room to database:'' w;
          w2 = (case e of
                  NonError _ \<Rightarrow> w1
                | Error msg \<Rightarrow>
                    logger Err
                      (if str_includes msg ''duplicate key'' \<or> str_includes msg ''E11000''
                         then ''[VOICEMASTER] Room '' @ n @ '' already exists in database (duplicate key error)''
                       else if str_includes msg ''Guild'' \<or> str_includes msg ''User''
                         then ''[VOICEMASTER] Validation error: '' @ msg
                       else if str_includes msg ''connection'' \<or> str_includes msg ''timeout''
                         then ''[VOICEMASTER] Database connection error: '' @ msg
                       else ''[VOICEMASTER] Unknown database error: '' @ msg)
                      (logger Err ''[VOICEMASTER] Error stack:''
                         (logger Err (''[VOICEMASTER] Error message: '' @ msg) w1)));
          w3 = logger Warn (''[VOICEMASTER] Cleaning up channel '' @ n @ '' due to database error'') w2;
          w4 = (case channel_delete x n ''Database save failed'' w3 of
                  Inl _ \<Rightarrow> logger Err ''[VOICEMASTER] Failed to delete channel after database error:'' w3
                | Inr w' \<Rightarrow> w')
      in disconnect_quiet x m ''Database error - room creation failed'' w4)"

text \<open>From the channel name on: create the channel, move the member, write the row.\<close>

definition provision_room :: "Ext \<Rightarrow> snowflake \<Rightarrow> Member \<Rightarrow> snowflake \<Rightarrow> World \<Rightarrow> World" where
  "provision_room x g m cat w =
     (let channelName = take 100 (username m @ [CHR 0x27] @ ''s Room'') in
      case channels_create x g channelName cat
             [(g, Connect, False), (memberId m, Connect, True),
              (memberId m, ManageChannels, True), (memberId m, Speak, True)] w of
        Inl e \<Rightarrow>
          (let w1 = logger Err ''[VOICEMASTER] Failed to create channel:'' w in
           case e of
             NonError _ \<Rightarrow> w1
           | Error msg \<Rightarrow>
               if str_includes msg ''Missing Permissions''
                 then disconnect_quiet x (memberId m) ''Bot lacks permissions to create channels'' w1
               else if str_includes msg ''rate limit''
                 then disconnect_quiet x (memberId m) ''Rate limited - please try again in a moment'' w1
               else disconnect_quiet x (memberId m) ''Failed to create room - please try again'' w1)
      | Inr (n, w1) \<Rightarrow>
          (let w2 = logger Info (''[VOICEMASTER] Created voice channel '' @ n @ '' for user '' @ memberId m) w1 in
           case voice_setChannel x (memberId m) n w2 of
             Inl e \<Rightarrow>
               (let w3 = logger Err ''[VOICEMASTER] Failed to move user to channel:'' w2;
                    w4 = catch_ignore w3 (channel_delete x n ''Failed to move user'' w3)
                in disconnect_quiet x (memberId m) ''Failed to move to new room'' w4)
           | Inr w3 \<Rightarrow>
               (let w4 = logger Debug (''[VOICEMASTER] Moved user '' @ memberId m @ '' to channel '' @ n) w3 in
                case (if readyStateAtWrite x \<noteq> 1
                        then Inl (Error (''Database not connected (readyState: ''
                                           @ show_nat (readyStateAtWrite x) @ '')''))
                      else createRoom x
                             \<lparr>channelId = n, guildId = g, ownerId = memberId m,
                              locked = False, hidden = False, limit = None\<rparr> w4) of
                  Inr w5 \<Rightarrow>
                    logger Info (''[VOICEMASTER] Created private room '' @ n @ '' for user ''
                                   @ memberId m @ '' ('' @ tag m @ '')'') w5
                | Inl e \<Rightarrow> room_save_failed x n (memberId m) e w4)))"

text \<open>The body of the outer \<open>try\<close>: the precondition checks, then \<open>provision_room\<close>.
  Only the Lobby Config lookup can throw out of it.\<close>

definition createPrivateRoom_try :: "Ext \<Rightarrow> snowflake \<Rightarrow> Member \<Rightarrow> World \<Rightarrow> (Thrown \<times> World) + World" where
  "createPrivateRoom_try x g m w =
     (if readyStateAtEntry x \<noteq> 1 then
        Inr (disconnect_quiet x (memberId m) ''Database not connected - please try again later''
               (logger Err ''[VOICEMASTER] Cannot create room: Database not connected'' w))
      else
        case getVoiceCreatorByGuildId x w g of
          Inl e \<Rightarrow> Inl (e, w)
        | Inr None \<Rightarrow> Inr (logger Debug (''[VOICEMASTER] No voice creator found for guild '' @ g) w)
        | Inr (Some voiceCreator) \<Rightarrow>
            (case channels_fetch x (FetchChannel (categoryId voiceCreator)) w g (categoryId voiceCreator) of
               Inl e \<Rightarrow>
                 Inr (disconnect_quiet x (memberId m)
                        ''VoiceMaster category not found - please contact server admin''
                        (logger Err (''[VOICEMASTER] Failed to fetch category '' @ categoryId voiceCreator @ '':'') w))
             | Inr fetched \<Rightarrow>
                 (case (case fetched of None \<Rightarrow> None
                        | Some ch \<Rightarrow> if chType ch \<noteq> GuildCategory then None else Some ch) of
                    None \<Rightarrow>
                      Inr (disconnect_quiet x (memberId m)
                             ''Invalid VoiceMaster category - please contact server admin''
                             (logger Err (''[VOICEMASTER] Invalid category: '' @ categoryId voiceCreator
                                            @ '' (type: ''
                                            @ (case fetched of None \<Rightarrow> ''undefined''
                                               | Some ch \<Rightarrow> show_nat (type_code (chType ch)))
                                            @ '')'') w))
                  | Some category \<Rightarrow>
                      (case catch_null (members_fetch x g (botId x)) of
                         None \<Rightarrow>
                           Inr (disconnect_quiet x (memberId m) ''Bot error - please contact server admin''
                                  (logger Err ''[VOICEMASTER] Bot member not found'' w))
                       | Some botMember \<Rightarrow>
                           (let hasManageChannels = has_permission x category botMember ManageChannels;
                                hasConnect = has_permission x category botMember Connect;
                                hasMoveMembers = has_permission x category botMember MoveMembers
                            in
                              if \<not> hasManageChannels \<or> \<not> hasConnect \<or> \<not> hasMoveMembers then
                                (let missingPerms =
                                       (if \<not> hasManageChannels then [''ManageChannels''] else [])
                                     @ (if \<not> hasConnect then [''Connect''] else [])
                                     @ (if \<not> hasMoveMembers then [''MoveMembers''] else [])
                                 in Inr (disconnect_quiet x (memberId m)
                                           (''Bot lacks permissions: '' @ join_comma missingPerms
                                              @ '' - please contact server admin'')
                                           (logger Err (''[VOICEMASTER] Bot lacks permissions in category ''
                                                          @ categoryId voiceCreator @ ''. Missing: ''
                                                          @ join_comma missingPerms) w)))
                              else Inr (provision_room x g m (categoryId voiceCreator) w))))))"

definition createPrivateRoom :: "Ext \<Rightarrow> VoiceState \<Rightarrow> World \<Rightarrow> World" where
  "createPrivateRoom x st w =
     (case (vs_guild st, state_channel w st, vs_member st) of
        (Some g, Some _, Some m) \<Rightarrow>
          (case createPrivateRoom_try x g m w of
             Inr w' \<Rightarrow> w'
           | Inl (e, w') \<Rightarrow>
               (let w1 = logger Err ''[VOICEMASTER] Unexpected error creating private room:'' w';
                    w2 = (case e of Error _ \<Rightarrow> logger Err ''[VOICEMASTER] Error stack:'' w1
                          | NonError _ \<Rightarrow> w1)
                in disconnect_quiet x (memberId m) ''Unexpected error creating room'' w2))
      | _ \<Rightarrow> logger Warn ''[VOICEMASTER] Cannot create room: Missing guild, channel, or member'' w)"

subsubsection \<open>handleVoiceJoin\<close>

text \<open>The access gate of a locked room, for a member who is not its owner.\<close>

definition gate_locked_room :: "Ext \<Rightarrow> snowflake \<Rightarrow> Channel \<Rightarrow> Member \<Rightarrow> World \<Rightarrow> World" where
  "gate_locked_room x c ch m w =
     (let hasConnectPermission = has_permission x ch (memberId m) Connect in
      if \<not> hasConnectPermission then
        (let w1 = logger Info (''[VOICEMASTER] Disconnecting user '' @ memberId m @ '' ('' @ tag m
                                 @ '') from locked room '' @ c @ '' - no Connect permission'') w
         in case voice_disconnect x (memberId m)
                   ''Room is locked - you do not have permission to join'' w1 of
              Inr w2 \<Rightarrow> w2
            | Inl _ \<Rightarrow> logger Err ''[VOICEMASTER] Failed to disconnect user from locked room:'' w1)
      else logger Debug (''[VOICEMASTER] User '' @ memberId m
                           @ '' has permission to join locked room '' @ c) w)"

definition handleVoiceJoin :: "Ext \<Rightarrow> VoiceState \<Rightarrow> World \<Rightarrow> (Thrown \<times> World) + World" where
  "handleVoiceJoin x st w =
     (case (vs_guild st, state_channel w st, vs_member st) of
        (Some g, Some (c, ch), Some m) \<Rightarrow>
          (case getVoiceCreatorByGuildId x w g of
             Inl e \<Rightarrow> Inl (e, w)
           | Inr None \<Rightarrow> Inr w
           | Inr (Some voiceCreator) \<Rightarrow>
               if c = voiceChannelId voiceCreator then Inr (createPrivateRoom x st w)
               else
                 (case getRoom x w c of
                    Inl e \<Rightarrow> Inl (e, w)
                  | Inr None \<Rightarrow> Inr w
                  | Inr (Some room) \<Rightarrow>
                      (let w1 = cancelRoomDeletion c w in
                       if locked room then
                         (if memberId m = ownerId room then Inr w1
                          else Inr (gate_locked_room x c ch m w1))
                       else Inr w1)))
      | _ \<Rightarrow> Inr w)"

subsubsection \<open>handleVoiceLeave and its two timer callbacks\<close>

text \<open>The \<open>try\<close>/\<open>catch\<close> around the row deletion that follows the channel deletion, and
  the closing log line.\<close>

definition delete_row_logged :: "Ext \<Rightarrow> snowflake \<Rightarrow> World \<Rightarrow> World" where
  "delete_row_logged x c w =
     logger Info (''[VOICEMASTER] Successfully deleted empty room '' @ c)
       (case deleteRoom x c w of
          Inr w' \<Rightarrow> logger Info (''[VOICEMASTER] Successfully deleted room '' @ c @ '' from database'') w'
        | Inl _ \<Rightarrow> logger Err (''[VOICEMASTER] Failed to delete room '' @ c @ '' from database:'') w)"

text \<open>The empty-room branch of the 15 second callback.\<close>

definition delete_empty_room :: "Ext \<Rightarrow> snowflake \<Rightarrow> snowflake \<Rightarrow> Channel \<Rightarrow> World \<Rightarrow> World" where
  "delete_empty_room x c g ch w =
     (let w1 = logger Info (''[VOICEMASTER] Deleting empty room '' @ c @ ''...'') w in
      case catch_null (members_fetch x g (botId x)) of
        None \<Rightarrow>
          logger Err (''[VOICEMASTER] Bot member not found in guild '' @ g
                        @ '', cannot delete room '' @ c) w1
      | Some botMember \<Rightarrow>
          (let hasManageChannels = has_permission x ch botMember ManageChannels in
           if \<not> hasManageChannels then
             deleteRoom_quiet x c
               (logger Err (''[VOICEMASTER] Bot lacks ManageChannels permission for room '' @ c
                              @ '', cannot delete'') w1)
           else
             (case channel_delete x c ''Room is empty - auto-deleted by VoiceMaster'' w1 of
                Inr w2 \<Rightarrow>
                  delete_row_logged x c
                    (logger Info (''[VOICEMASTER] Successfully deleted voice channel '' @ c) w2)
              | Inl deleteError \<Rightarrow>
                  (let w2 = logger Err (''[VOICEMASTER] Failed to delete voice channel '' @ c @ '':'') w1 in
                   if message_includes deleteError ''Missing Permissions'' then
                     delete_row_logged x c
                       (logger Err (''[VOICEMASTER] Bot lacks permissions to delete channel '' @ c) w2)
                   else if message_includes deleteError ''rate limit'' then
                     logger Warn (''[VOICEMASTER] Rate limited while deleting channel '' @ c
                                    @ '', will retry on next cleanup'') w2
                   else delete_row_logged x c w2))))"

definition final_deletion_try :: "Ext \<Rightarrow> snowflake \<Rightarrow> snowflake \<Rightarrow> World \<Rightarrow> (Thrown \<times> World) + World" where
  "final_deletion_try x c g w0 =
     (let w = deletionTimeouts_delete c w0 in
      case guilds_fetch x w g of
        None \<Rightarrow>
          Inr (deleteRoom_quiet x c
                 (logger Warn (''[VOICEMASTER] Guild '' @ g
                                 @ '' not found during deletion, cleaning up database'') w))
      | Some _ \<Rightarrow>
          (case fetch_voice_channel x w g c of
             None \<Rightarrow>
               Inr (deleteRoom_quiet x c
                      (logger Info (''[VOICEMASTER] Channel '' @ c
                                      @ '' already deleted, cleaning up database'') w))
           | Some ch \<Rightarrow>
               (case getRoom x w c of
                  Inl e \<Rightarrow> Inl (e, w)
                | Inr None \<Rightarrow>
                    Inr (logger Debug (''[VOICEMASTER] Room '' @ c
                                         @ '' was deleted from database, skipping deletion'') w)
                | Inr (Some finalRoom) \<Rightarrow>
                    if length (members_of w c) = 0 then Inr (delete_empty_room x c g ch w)
                    else
                      Inr (logger Debug (''[VOICEMASTER] Room '' @ c @ '' is no longer empty (''
                                           @ show_nat (length (members_of w c))
                                           @ '' members), skipping deletion'') w))))"

definition final_deletion :: "Ext \<Rightarrow> snowflake \<Rightarrow> snowflake \<Rightarrow> World \<Rightarrow> World" where
  "final_deletion x c g w =
     (case final_deletion_try x c g w of
        Inr w' \<Rightarrow> w'
      | Inl (e, w') \<Rightarrow>
          (let w1 = logger Err (''[VOICEMASTER] Error in final deletion check for room '' @ c @ '':'') w';
               w2 = (case e of Error _ \<Rightarrow> logger Err ''[VOICEMASTER] Error stack:'' w1
                     | NonError _ \<Rightarrow> w1)
           in deletionTimeouts_delete c w2))"



definition handleVoiceLeave :: "Ext \<Rightarrow> VoiceState \<Rightarrow> World \<Rightarrow> (Thrown \<times> World) + World" where
  "handleVoiceLeave x st w =
     (case (vs_guild st, state_channel w st) of
        (Some guildId', Some (channelId', _)) \<Rightarrow>
          (case getRoom x w channelId' of
             Inl e \<Rightarrow> Inl (e, w)
           | Inr None \<Rightarrow>
               Inr (logger Debug (''[VOICEMASTER] Room '' @ channelId'
                                    @ '' not found in database, skipping deletion check'') w)
           | Inr (Some room) \<Rightarrow>
               Inr (snd (setTimeout (SettleCheck channelId' guildId') 1000
                           (logger Debug (''[VOICEMASTER] User left room '' @ channelId'
                                            @ '', checking if empty...'') w))))
      | _ \<Rightarrow> Inr w)"



subsubsection \<open>handleVoiceSwitch and execute\<close>

definition handleVoiceSwitch :: "Ext \<Rightarrow> VoiceState \<Rightarrow> VoiceState \<Rightarrow> World \<Rightarrow> (Thrown \<times> World) + World" where
  "handleVoiceSwitch x oldState newState w =
     (case handleVoiceLeave x oldState w of
        Inl e \<Rightarrow> Inl e
      | Inr w1 \<Rightarrow> handleVoiceJoin x newState w1)"

text \<open>\<open>execute\<close>: three tests in a row inside one \<open>try\<close>; a throw skips the rest and is
  logged.\<close>

definition execute :: "Ext \<Rightarrow> VoiceState \<Rightarrow> VoiceState \<Rightarrow> World \<Rightarrow> World" where
  "execute x oldState newState w =
     (case (if state_channel w oldState = None \<and> state_channel w newState \<noteq> None
              then handleVoiceJoin x newState w else Inr w) of
        Inl (e, w') \<Rightarrow> logger Err ''Error in voiceStateUpdate event:'' w'
      | Inr w1 \<Rightarrow>
          (case (if state_channel w1 oldState \<noteq> None \<and> state_channel w1 newState = None
                   then handleVoiceLeave x oldState w1 else Inr w1) of
             Inl (e, w') \<Rightarrow> logger Err ''Error in voiceStateUpdate event:'' w'
           | Inr w2 \<Rightarrow>
               (case (if state_channel w2 oldState \<noteq> None \<and> state_channel w2 newState \<noteq> None
                         \<and> map_option fst (state_channel w2 oldState)
                             \<noteq> map_option fst (state_channel w2 newState)
                        then handleVoiceSwitch x oldState newState w2 else Inr w2) of
                  Inl (e, w') \<Rightarrow> logger Err ''Error in voiceStateUpdate event:'' w'
                | Inr w3 \<Rightarrow> w3)))"

subsection \<open>The startup sweep (cleanupVoiceMasterRooms in events/client/ready.ts)\<close>

text \<open>The loop carries the world and the two counters \<open>deletedCount\<close> and
  \<open>orphanedCount\<close>.\<close>

type_synonym SweepState = "World \<times> nat \<times> nat"

text \<open>\<open>await deleteRoom(room.channelId); orphanedCount++; logger.debug(...)\<close>; a throw
  leaves with the state before the call.\<close>

definition drop_orphan :: "Ext \<Rightarrow> snowflake \<Rightarrow> string \<Rightarrow> SweepState \<Rightarrow> (Thrown \<times> SweepState) + SweepState" where
  "drop_orphan x c why s =
     (case s of (w, deleted, orphaned) \<Rightarrow>
        (case deleteRoom x c w of
           Inl e \<Rightarrow> Inl (e, s)
         | Inr w1 \<Rightarrow>
             Inr (logger Debug (''[VOICEMASTER] Deleted orphaned room entry: '' @ c @ '' ('' @ why @ '')'') w1,
                  deleted, orphaned + 1)))"

text \<open>The inner \<open>try\<close> of the empty-room branch.\<close>

definition sweep_empty_try :: "Ext \<Rightarrow> snowflake \<Rightarrow> snowflake \<Rightarrow> Channel \<Rightarrow> SweepState \<Rightarrow> (Thrown \<times> SweepState) + SweepState" where
  "sweep_empty_try x g c ch s =
     (case s of (w, deleted, orphaned) \<Rightarrow>
        (case catch_null (members_fetch x g (botId x)) of
           None \<Rightarrow>
             Inr (logger Warn (''[VOICEMASTER] Cannot delete room '' @ c @ '': Bot member not found'') w,
                  deleted, orphaned)
         | Some botMember \<Rightarrow>
             if \<not> has_permission x ch botMember ManageChannels then
               (let w1 = logger Warn (''[VOICEMASTER] Cannot delete room '' @ c
                                        @ '': Bot lacks ManageChannels permission'') w
                in case deleteRoom x c w1 of
                     Inl e \<Rightarrow> Inl (e, (w1, deleted, orphaned))
                   | Inr w2 \<Rightarrow> Inr (w2, deleted, orphaned + 1))
             else
               (case channel_delete x c ''Bot restart cleanup - empty room'' w of
                  Inl e \<Rightarrow> Inl (e, s)
                | Inr w1 \<Rightarrow>
                    (case deleteRoom x c w1 of
                       Inl e \<Rightarrow> Inl (e, (w1, deleted, orphaned))
                     | Inr w2 \<Rightarrow>
                         Inr (logger Info (''[VOICEMASTER] Deleted empty room: '' @ c) w2,
                              deleted + 1, orphaned)))))"

text \<open>The empty-room branch with its \<open>catch (deleteError)\<close>: look whether the channel is
  still there; if not, drop the row.\<close>

definition sweep_empty :: "Ext \<Rightarrow> snowflake \<Rightarrow> snowflake \<Rightarrow> Channel \<Rightarrow> SweepState \<Rightarrow> (Thrown \<times> SweepState) + SweepState" where
  "sweep_empty x g c ch s =
     (case sweep_empty_try x g c ch s of
        Inr s' \<Rightarrow> Inr s'
      | Inl (deleteError, (w, deleted, orphaned)) \<Rightarrow>
          (let w1 = logger Err (''[VOICEMASTER] Failed to delete empty room '' @ c @ '':'') w in
           case catch_null (channels_fetch x (RefetchChannel c) w1 g c) of
             None \<Rightarrow>
               (case deleteRoom x c w1 of
                  Inl e \<Rightarrow> Inl (e, (w1, deleted, orphaned))
                | Inr w2 \<Rightarrow>
                    Inr (logger Info (''[VOICEMASTER] Cleaned up database entry for deleted room: '' @ c) w2,
                         deleted, orphaned + 1))
           | Some _ \<Rightarrow>
               Inr (logger Warn (''[VOICEMASTER] Room '' @ c @ '' still exists, keeping in database'') w1,
                    deleted, orphaned)))"

text \<open>The body of the loop's \<open>try\<close> for one row.\<close>

definition sweep_room_try :: "Ext \<Rightarrow> Room \<Rightarrow> SweepState \<Rightarrow> (Thrown \<times> SweepState) + SweepState" where
  "sweep_room_try x room s =
     (case s of (w, deleted, orphaned) \<Rightarrow>
        if guildId room \<notin> set (guilds w) then drop_orphan x (channelId room) ''guild not found'' s
        else
          (case catch_null (channels_fetch x (FetchChannel (channelId room)) w (guildId room) (channelId room)) of
             None \<Rightarrow> drop_orphan x (channelId room) ''channel not found'' s
           | Some ch \<Rightarrow>
               if chType ch \<noteq> GuildVoice then drop_orphan x (channelId room) ''not a voice channel'' s
               else if length (members_of w (channelId room)) = 0 then
                 sweep_empty x (guildId room) (channelId room) ch s
               else
                 Inr (logger Debug (''[VOICEMASTER] Keeping room with ''
                                      @ show_nat (length (members_of w (channelId room)))
                                      @ '' members: '' @ channelId room) w,
                      deleted, orphaned)))"

text \<open>One turn of the loop, with the \<open>catch (error)\<close> that tries to drop the row.\<close>

definition sweep_room :: "Ext \<Rightarrow> SweepState \<Rightarrow> Room \<Rightarrow> SweepState" where
  "sweep_room x s room =
     (case sweep_room_try x room s of
        Inr s' \<Rightarrow> s'
      | Inl (e, (w, deleted, orphaned)) \<Rightarrow>
          (let w1 = logger Err (''[VOICEMASTER] Error cleaning up room '' @ channelId room @ '':'') w in
           case deleteRoom x (channelId room) w1 of
             Inr w2 \<Rightarrow> (w2, deleted, orphaned + 1)
           | Inl _ \<Rightarrow>
               (logger Err (''[VOICEMASTER] Failed to delete room entry '' @ channelId room @ '':'') w1,
                deleted, orphaned)))"

definition cleanupVoiceMasterRooms :: "Ext \<Rightarrow> World \<Rightarrow> World" where
  "cleanupVoiceMasterRooms x w =
     (case dbFault x GetAllRooms of
        Some e \<Rightarrow> logger Err ''[VOICEMASTER] Error during room cleanup:'' w
      | None \<Rightarrow>
          (let rooms0 = rooms w in
           if length rooms0 = 0 then logger Info ''[VOICEMASTER] No rooms to cleanup'' w
           else
             (case foldl (sweep_room x)
                     (logger Info (''[VOICEMASTER] Cleaning up '' @ show_nat (length rooms0) @ '' rooms...'') w,
                      0, 0) rooms0 of
                (w', deletedCount, orphanedCount) \<Rightarrow>
                  logger Info (''[VOICEMASTER] Cleanup complete: '' @ show_nat deletedCount
                                 @ '' empty rooms deleted, '' @ show_nat orphanedCount
                                 @ '' orphaned entries removed'') w')))"

subsection \<open>Concrete worlds\<close>

text \<open>Guild \<open>g1\<close> with its rooms category \<open>cat\<close>, lobby \<open>lobby\<close> and one private room
  \<open>c1\<close> owned by \<open>u1\<close>; nothing rejects.\<close>

definition calm :: Ext where
  "calm = \<lparr>dbFault = (\<lambda>_. None), apiFault = (\<lambda>_. None),
            readyStateAtEntry = 1, readyStateAtWrite = 1,
            botId = ''bot'', newChannelId = ''c9'',
            permissionsFor = (\<lambda>ch m. if m = ''bot'' then Some [Connect, ManageChannels, MoveMembers]
                                       else Some [])\<rparr>"

definition voice_chan :: Channel where
  "voice_chan = \<lparr>chGuild = ''g1'', chType = GuildVoice, chName = ''room'', chParent = Some ''cat'',
                 userLimit = 0, permissionOverwrites = []\<rparr>"

definition room1 :: Room where
  "room1 = \<lparr>channelId = ''c1'', guildId = ''g1'', ownerId = ''u1'',
             locked = False, hidden = False, limit = None\<rparr>"

definition creator1 :: VoiceCreator where
  "creator1 = \<lparr>vcGuildId = ''g1'', categoryId = ''cat'', voiceChannelId = ''lobby'',
                textChannelId = ''txt''\<rparr>"

definition world1 :: World where
  "world1 = \<lparr>rooms = [room1], creators = [creator1], guilds = [''g1''],
              channels = [''c1'' \<mapsto> voice_chan,
                          ''lobby'' \<mapsto> voice_chan\<lparr>chName := ''Join to Create''\<rparr>,
                          ''cat'' \<mapsto> voice_chan\<lparr>chType := GuildCategory, chParent := None\<rparr>],
              voice = [(''u1'', ''c1''), (''u2'', ''c1'')],
              deletionTimeouts = [], timers = [], nextHandle = 0, now = 0, out = []\<rparr>"

text \<open>A third member \<open>u3\<close> and the snapshots of its voice state: in no channel, in the
  lobby, in room \<open>c1\<close>; and the worlds in which it has just entered the lobby or the room.\<close>

definition member3 :: Member where
  "member3 = \<lparr>memberId = ''u3'', username = ''carol'', tag = ''carol#0003''\<rparr>"

definition nowhere3 :: VoiceState where
  "nowhere3 = \<lparr>vs_guild = Some ''g1'', vs_channelId = None, vs_member = Some member3\<rparr>"

definition in_lobby3 :: VoiceState where
  "in_lobby3 = \<lparr>vs_guild = Some ''g1'', vs_channelId = Some ''lobby'', vs_member = Some member3\<rparr>"

definition in_room3 :: VoiceState where
  "in_room3 = \<lparr>vs_guild = Some ''g1'', vs_channelId = Some ''c1'', vs_member = Some member3\<rparr>"

definition world_lobby3 :: World where
  "world_lobby3 = world1\<lparr>voice := (''u3'', ''lobby'') # voice world1\<rparr>"

definition world_room3 :: World where
  "world_room3 = world1\<lparr>voice := (''u3'', ''c1'') # voice world1\<rparr>"

text \<open>Outcomes in which exactly one call rejects.\<close>

definition move_fails :: Ext where
  "move_fails = calm\<lparr>apiFault := (\<lambda>op. if op = SetChannel ''u3''
                                        then Some (Error ''Target user is not connected to voice.'')
                                        else None)\<rparr>"

definition bot_cannot_manage :: Ext where
  "bot_cannot_manage = calm\<lparr>permissionsFor := (\<lambda>ch m. Some [Connect])\<rparr>"


text \<open>Room \<open>c1\<close> with nobody in it, and platforms that reject the deletion of its
  channel: with the REST client's \<open>RateLimitError\<close>, an \<open>Error\<close> that is constructed
  without a message, and with an error whose message speaks of a rate limit.\<close>

definition world_empty1 :: World where
  "world_empty1 = world1\<lparr>voice := []\<rparr>"



definition rate_limited :: Ext where
  "rate_limited = calm\<lparr>apiFault := (\<lambda>op. if op = ChannelDelete ''c1''
                                          then Some (Error ''You are being rate limited.'')
                                          else None)\<rparr>"



text \<open>The registry after a restart: a row whose channel \<open>c7\<close> is gone, the populated room
  \<open>c1\<close>, and a room \<open>c2\<close> with nobody in it.\<close>

definition room2 :: Room where
  "room2 = room1\<lparr>channelId := ''c2'', ownerId := ''u4''\<rparr>"

definition room7 :: Room where
  "room7 = room1\<lparr>channelId := ''c7'', ownerId := ''u5''\<rparr>"

definition world_restart :: World where
  "world_restart = world1\<lparr>rooms := [room7, room1, room2],
                           channels := (channels world1)(''c2'' \<mapsto> voice_chan)\<rparr>"

subsection \<open>What a step may touch\<close>

text \<open>A step from \<open>v\<close> to \<open>v'\<close> touches only channel \<open>c\<close> when the guilds are the same, every
  other channel has its state, its row and its members as before, and the registry's
  channel ids stay unique.\<close>

definition touches_only :: "snowflake \<Rightarrow> World \<Rightarrow> World \<Rightarrow> bool" where
  "touches_only c v v' =
     (guilds v' = guilds v
      \<and> (\<forall>k. k \<noteq> c \<longrightarrow> channels v' k = channels v k
                      \<and> findRoom (rooms v') k = findRoom (rooms v) k
                      \<and> members_of v' k = members_of v k)
      \<and> (distinct (map channelId (rooms v)) \<longrightarrow> distinct (map channelId (rooms v'))))"

section \<open>Properties\<close>

subsection \<open>The registry\<close>

lemma findRoom_update_first:
  "(\<And>r. channelId (f r) = channelId r) \<Longrightarrow>
   findRoom (update_first c f rs) k = (if k = c then map_option f (findRoom rs c) else findRoom rs k)"
  by (induction rs) (auto simp: findRoom_def)

lemma channelId_apply_patch [simp]: "channelId (apply_patch p r) = channelId r"
  by (simp add: apply_patch_def)

lemma update_first_id: "(\<And>r. f r = r) \<Longrightarrow> update_first c f rs = rs"
  by (induction rs) auto

lemma apply_no_patch [simp]: "apply_patch no_patch r = r"
  by (simp add: apply_patch_def no_patch_def)

subsection \<open>Room control\<close>

text \<open>The buttons test the caller against the row's owner before they touch anything.\<close>

lemma buttons_reject_non_owner:
  assumes "bi_guild i = Some g"
    and "voice_channel w g (bi_user i) = Some (c, ch)"
    and "getRoom x w c = Inr (Some room)"
    and "ownerId room \<noteq> bi_user i"
  shows "LockButton_execute x i w = reply ''You are not the owner of this room.'' w"
    and "IncreaseButton_execute x i w = reply ''You are not the owner of this room.'' w"
    and "DecreaseButton_execute x i w = reply ''You are not the owner of this room.'' w"
  using assms
  by (simp_all add: LockButton_execute_def IncreaseButton_execute_def DecreaseButton_execute_def)

text \<open>The two ends of the limit: at 99 Increase only replies, at 0 Decrease only replies.\<close>

lemma IncreaseButton_at_maximum:
  assumes "bi_guild i = Some g"
    and "voice_channel w g (bi_user i) = Some (c, ch)"
    and "getRoom x w c = Inr (Some room)"
    and "ownerId room = bi_user i"
    and "chType ch = GuildVoice"
    and "userLimit ch \<ge> 99"
  shows "IncreaseButton_execute x i w = reply ''Maximum limit reached (99).'' w"
  using assms by (simp add: IncreaseButton_execute_def)

lemma DecreaseButton_at_minimum:
  assumes "bi_guild i = Some g"
    and "voice_channel w g (bi_user i) = Some (c, ch)"
    and "getRoom x w c = Inr (Some room)"
    and "ownerId room = bi_user i"
    and "chType ch = GuildVoice"
    and "userLimit ch = 0"
  shows "DecreaseButton_execute x i w = reply ''Minimum limit reached (0 = unlimited).'' w"
  using assms by (simp add: DecreaseButton_execute_def)

text \<open>
  C5. The Claim button, pressed by a caller who is in a voice channel \<open>c\<close> that has a Room
  row: when the row's owner is among the members of \<open>c\<close>, the only effect is the reply
  "Owner is in the room." (the row keeps its owner); and whenever the row of \<open>c\<close>
  is different afterwards, the owner was not among the members and the row differs only
  in its owner, who is now the caller.
\<close>

theorem Claim_only_when_owner_absent:
  assumes "bi_guild i = Some g"
    and "voice_channel w g (bi_user i) = Some (c, ch)"
    and "chType ch = GuildVoice"
    and "getRoom x w c = Inr (Some room)"
  shows "(ownerId room \<in> set (members_of w c) \<longrightarrow>
            ClaimButton_execute x i w = reply ''Owner is in the room.'' w
            \<and> findRoom (rooms (ClaimButton_execute x i w)) c = Some room)
       \<and> (findRoom (rooms (ClaimButton_execute x i w)) c \<noteq> Some room \<longrightarrow>
            ownerId room \<notin> set (members_of w c)
            \<and> findRoom (rooms (ClaimButton_execute x i w)) c = Some (room\<lparr>ownerId := bi_user i\<rparr>))"
proof -
  have row: "findRoom (rooms w) c = Some room"
    using assms(4) by (simp add: getRoom_def split: option.splits)
  have present: "find (\<lambda>m. m = ownerId room) (members_of w c) \<noteq> None"
    if "ownerId room \<in> set (members_of w c)"
    using that by (simp add: find_None_iff)
  have absent: "find (\<lambda>m. m = ownerId room) (members_of w c) = None"
    if "ownerId room \<notin> set (members_of w c)"
    using that by (simp add: find_None_iff)
  show ?thesis
  proof (cases "ownerId room \<in> set (members_of w c)")
    case True
    then show ?thesis
      using assms present row
      by (simp add: ClaimButton_execute_def reply_def emit_def)
  next
    case False
    then show ?thesis
      using assms absent row
      by (auto simp: ClaimButton_execute_def reply_def emit_def updateRoom_def
            findRoom_update_first apply_patch_def no_patch_def
          split: option.splits sum.splits)
  qed
qed

theorem Claim_only_when_owner_absent_witness:
  "ClaimButton_execute calm \<lparr>bi_guild = Some ''g1'', bi_user = ''u2''\<rparr> world1
     = reply ''Owner is in the room.'' world1
   \<and> findRoom (rooms (ClaimButton_execute calm \<lparr>bi_guild = Some ''g1'', bi_user = ''u2''\<rparr> world1)) ''c1''
     = Some room1
   \<and> ownerId room1 \<notin> set (members_of (world1\<lparr>voice := [(''u2'', ''c1'')]\<rparr>) ''c1'')
   \<and> findRoom (rooms (ClaimButton_execute calm \<lparr>bi_guild = Some ''g1'', bi_user = ''u2''\<rparr>
                         (world1\<lparr>voice := [(''u2'', ''c1'')]\<rparr>))) ''c1''
     = Some (room1\<lparr>ownerId := ''u2''\<rparr>)"
proof -
  let ?i = "\<lparr>bi_guild = Some ''g1'', bi_user = ''u2''\<rparr>"
  let ?w = "world1\<lparr>voice := [(''u2'', ''c1'')]\<rparr>"
  have g: "bi_guild ?i = Some ''g1''" by simp
  have t: "chType voice_chan = GuildVoice" by (simp add: voice_chan_def)
  have v: "voice_channel world1 ''g1'' (bi_user ?i) = Some (''c1'', voice_chan)"
    by (simp add: voice_channel_def world1_def voice_chan_def)
  have r: "getRoom calm world1 ''c1'' = Inr (Some room1)"
    by (simp add: getRoom_def calm_def world1_def findRoom_def room1_def)
  have m: "ownerId room1 \<in> set (members_of world1 ''c1'')"
    by (simp add: members_of_def world1_def room1_def)
  have v': "voice_channel ?w ''g1'' (bi_user ?i) = Some (''c1'', voice_chan)"
    by (simp add: voice_channel_def world1_def voice_chan_def)
  have r': "getRoom calm ?w ''c1'' = Inr (Some room1)"
    by (simp add: getRoom_def calm_def world1_def findRoom_def room1_def)
  have changed: "findRoom (rooms (ClaimButton_execute calm ?i ?w)) ''c1'' \<noteq> Some room1"
    by (simp add: ClaimButton_execute_def voice_channel_def world1_def voice_chan_def getRoom_def
          calm_def findRoom_def room1_def members_of_def updateRoom_def apply_patch_def no_patch_def
          reply_def emit_def)
  have present: "ClaimButton_execute calm ?i world1 = reply ''Owner is in the room.'' world1
      \<and> findRoom (rooms (ClaimButton_execute calm ?i world1)) ''c1'' = Some room1"
    using Claim_only_when_owner_absent [OF g v t r] m by blast
  have absent: "ownerId room1 \<notin> set (members_of ?w ''c1'')
      \<and> findRoom (rooms (ClaimButton_execute calm ?i ?w)) ''c1''
          = Some (room1\<lparr>ownerId := bi_user ?i\<rparr>)"
    using Claim_only_when_owner_absent [OF g v' t r'] changed by blast
  have absent': "ownerId room1 \<notin> set (members_of ?w ''c1'')
      \<and> findRoom (rooms (ClaimButton_execute calm ?i ?w)) ''c1'' = Some (room1\<lparr>ownerId := ''u2''\<rparr>)"
    using absent by simp
  show ?thesis
    using present absent' by blast
qed

text \<open>
  C6. The owner of room \<open>c1\<close> (no limit on the channel, none stored) presses Increase and
  then Decrease. After Increase the channel's limit and the stored limit are both 1. After
  Decrease the channel's limit is 0 (unlimited), and the row still stores 1: neither
  absent nor 0.
\<close>

theorem Decrease_to_zero_keeps_stored_limit:
  "map_option limit (findRoom (rooms world1) ''c1'') = Some None
   \<and> map_option userLimit
       (channels (IncreaseButton_execute calm \<lparr>bi_guild = Some ''g1'', bi_user = ''u1''\<rparr> world1) ''c1'')
       = Some 1
   \<and> map_option limit
       (findRoom (rooms (IncreaseButton_execute calm \<lparr>bi_guild = Some ''g1'', bi_user = ''u1''\<rparr> world1))
          ''c1'')
       = Some (Some 1)
   \<and> map_option userLimit
       (channels (DecreaseButton_execute calm \<lparr>bi_guild = Some ''g1'', bi_user = ''u1''\<rparr>
          (IncreaseButton_execute calm \<lparr>bi_guild = Some ''g1'', bi_user = ''u1''\<rparr> world1)) ''c1'')
       = Some 0
   \<and> map_option limit
       (findRoom (rooms (DecreaseButton_execute calm \<lparr>bi_guild = Some ''g1'', bi_user = ''u1''\<rparr>
          (IncreaseButton_execute calm \<lparr>bi_guild = Some ''g1'', bi_user = ''u1''\<rparr> world1))) ''c1'')
       = Some (Some 1)"
  by (simp add: DecreaseButton_execute_def IncreaseButton_execute_def voice_channel_def world1_def
        voice_chan_def calm_def getRoom_def findRoom_def room1_def setUserLimit_def updateRoom_def
        apply_patch_def no_patch_def reply_def emit_def)

text \<open>
  C4. The vcreject command run by \<open>u2\<close>, who is in room \<open>c1\<close> but is not its owner
  \<open>u1\<close>, against the owner: the command is not rejected; the channel gets a deny-Connect
  overwrite for the owner and the owner is disconnected from the room.
\<close>

theorem VcReject_by_non_owner_takes_effect:
  "ownerId room1 \<noteq> ''u2''
   \<and> map_option permissionOverwrites
       (channels (VcRejectCommand_execute calm
          \<lparr>ci_guild = Some ''g1'', ci_member = Some ''u2'', ci_target = ''u1''\<rparr> world1) ''c1'')
     = Some [(''u1'', Connect, False)]
   \<and> map_option permissionOverwrites (channels world1 ''c1'') = Some []
   \<and> voice (VcRejectCommand_execute calm
          \<lparr>ci_guild = Some ''g1'', ci_member = Some ''u2'', ci_target = ''u1''\<rparr> world1)
     = [(''u2'', ''c1'')]
   \<and> out (VcRejectCommand_execute calm
          \<lparr>ci_guild = Some ''g1'', ci_member = Some ''u2'', ci_target = ''u1''\<rparr> world1)
     = [Disconnected ''u1'' ''Rejected by channel owner'',
        Reply ''<@u1> has been rejected from <#c1>'']"
  by (simp add: VcRejectCommand_execute_def vcreject_try_def members_fetch_def catch_null_def
        voice_channel_def world1_def voice_chan_def calm_def room1_def
        permissionOverwrites_edit_def edit_overwrite_def voice_disconnect_def reply_def emit_def)


subsection \<open>Output and timers leave the rest of the world alone\<close>

lemma emit_fields [simp]:
  "rooms (emit e w) = rooms w" "creators (emit e w) = creators w" "guilds (emit e w) = guilds w"
  "channels (emit e w) = channels w" "voice (emit e w) = voice w"
  "deletionTimeouts (emit e w) = deletionTimeouts w" "timers (emit e w) = timers w"
  "nextHandle (emit e w) = nextHandle w" "now (emit e w) = now w"
  "out (emit e w) = out w @ [e]"
  by (simp_all add: emit_def)

lemma logger_fields [simp]:
  "rooms (logger l s w) = rooms w" "creators (logger l s w) = creators w" "guilds (logger l s w) = guilds w"
  "channels (logger l s w) = channels w" "voice (logger l s w) = voice w"
  "deletionTimeouts (logger l s w) = deletionTimeouts w" "timers (logger l s w) = timers w"
  "nextHandle (logger l s w) = nextHandle w" "now (logger l s w) = now w"
  "out (logger l s w) = out w @ [Log l s]"
  by (simp_all add: logger_def)

lemma map_of_filter_key [simp]: "map_of (filter (\<lambda>(k, _). k \<noteq> a) xs) a = None"
  by (induction xs) auto

lemma cancel_fields [simp]:
  "rooms (cancelRoomDeletion c w) = rooms w" "creators (cancelRoomDeletion c w) = creators w"
  "guilds (cancelRoomDeletion c w) = guilds w"
  "channels (cancelRoomDeletion c w) = channels w" "voice (cancelRoomDeletion c w) = voice w"
  by (simp_all add: cancelRoomDeletion_def deletionTimeouts_delete_def clearTimeout_def split: option.splits)

lemma cancel_clears [simp]: "map_of (deletionTimeouts (cancelRoomDeletion c w)) c = None"
  by (simp add: cancelRoomDeletion_def deletionTimeouts_delete_def clearTimeout_def split: option.splits)

lemma disconnect_quiet_ok:
  "apiFault x (VoiceDisconnect m) = None \<Longrightarrow>
   disconnect_quiet x m reason w
     = emit (Disconnected m reason) (w\<lparr>voice := filter (\<lambda>(m', _). m' \<noteq> m) (voice w)\<rparr>)"
  by (simp add: disconnect_quiet_def voice_disconnect_def catch_ignore_def)


subsection \<open>The dispatch of execute\<close>

text \<open>
  C10. A voice-state update whose previous and next snapshot resolve to the same channel
  (a mute, deafen or stream toggle) leaves the world exactly as it was: no provisioning,
  no gate, no reaper timer, no cancellation, no output.
\<close>

theorem same_channel_update_is_ignored:
  assumes "state_channel w oldState = Some (c, ch)"
    and "state_channel w newState = Some (c, ch')"
  shows "execute x oldState newState w = w"
  using assms by (simp add: execute_def)


theorem same_channel_update_is_ignored_witness:
  "execute calm in_room3 in_room3 world_room3 = world_room3"
proof -
  have h: "state_channel world_room3 in_room3 = Some (''c1'', voice_chan)"
    by (simp add: state_channel_def world_room3_def world1_def in_room3_def voice_chan_def)
  show ?thesis
    using same_channel_update_is_ignored [OF h h] .
qed

subsection \<open>The access gate\<close>

text \<open>
  C3, as the code has it. A member \<open>m\<close> enters a channel \<open>c\<close> of a guild whose Lobby Config
  exists, \<open>c\<close> is not the lobby and has a Room row. If the room is locked, \<open>m\<close> is not the
  owner and \<open>m\<close>'s effective permissions on \<open>c\<close> lack Connect, a disconnect with the reason
  "Room is locked - you do not have permission to join" is carried out (when the platform
  accepts it) and \<open>m\<close> is in no channel afterwards. If the room is locked and \<open>m\<close> is the
  owner or has Connect, voice states, channels and rows are as before. If the room is not
  locked, the handler does nothing beyond cancelling a pending deletion.
\<close>

theorem lock_gate:
  assumes "vs_guild st = Some g"
    and "state_channel w st = Some (c, ch)"
    and "vs_member st = Some m"
    and "getVoiceCreatorByGuildId x w g = Inr (Some vc)"
    and "c \<noteq> voiceChannelId vc"
    and "getRoom x w c = Inr (Some room)"
  shows "(locked room \<and> memberId m \<noteq> ownerId room \<and> \<not> has_permission x ch (memberId m) Connect
            \<and> apiFault x (VoiceDisconnect (memberId m)) = None \<longrightarrow>
          (\<exists>w'. handleVoiceJoin x st w = Inr w' \<and> map_of (voice w') (memberId m) = None
             \<and> Disconnected (memberId m) ''Room is locked - you do not have permission to join''
                 \<in> set (out w')))
       \<and> (locked room \<and> (memberId m = ownerId room \<or> has_permission x ch (memberId m) Connect) \<longrightarrow>
          (\<exists>w'. handleVoiceJoin x st w = Inr w' \<and> voice w' = voice w \<and> channels w' = channels w
             \<and> rooms w' = rooms w))
       \<and> (\<not> locked room \<longrightarrow> handleVoiceJoin x st w = Inr (cancelRoomDeletion c w))"
  using assms
  by (auto simp: handleVoiceJoin_def gate_locked_room_def voice_disconnect_def Let_def)



theorem lock_gate_witness:
  "(\<exists>w'. handleVoiceJoin calm in_room3 (world_room3\<lparr>rooms := [room1\<lparr>locked := True\<rparr>]\<rparr>) = Inr w'
      \<and> map_of (voice w') (memberId member3) = None
      \<and> Disconnected (memberId member3) ''Room is locked - you do not have permission to join''
          \<in> set (out w'))
   \<and> (\<exists>w'. handleVoiceJoin bot_cannot_manage in_room3 (world_room3\<lparr>rooms := [room1\<lparr>locked := True\<rparr>]\<rparr>)
              = Inr w'
      \<and> voice w' = voice (world_room3\<lparr>rooms := [room1\<lparr>locked := True\<rparr>]\<rparr>))
   \<and> handleVoiceJoin calm in_room3 world_room3 = Inr (cancelRoomDeletion ''c1'' world_room3)"
proof -
  let ?w = "world_room3\<lparr>rooms := [room1\<lparr>locked := True\<rparr>]\<rparr>"
  have g: "vs_guild in_room3 = Some ''g1''" by (simp add: in_room3_def)
  have m: "vs_member in_room3 = Some member3" by (simp add: in_room3_def)
  have l: "''c1'' \<noteq> voiceChannelId creator1" by (simp add: creator1_def)
  have c: "state_channel ?w in_room3 = Some (''c1'', voice_chan)"
    by (simp add: state_channel_def world_room3_def world1_def in_room3_def voice_chan_def)
  have v: "getVoiceCreatorByGuildId calm ?w ''g1'' = Inr (Some creator1)"
    by (simp add: getVoiceCreatorByGuildId_def calm_def world_room3_def world1_def creator1_def)
  have r: "getRoom calm ?w ''c1'' = Inr (Some (room1\<lparr>locked := True\<rparr>))"
    by (simp add: getRoom_def calm_def findRoom_def room1_def)
  have p: "locked (room1\<lparr>locked := True\<rparr>) \<and> memberId member3 \<noteq> ownerId (room1\<lparr>locked := True\<rparr>)
           \<and> \<not> has_permission calm voice_chan (memberId member3) Connect
           \<and> apiFault calm (VoiceDisconnect (memberId member3)) = None"
    by (simp add: room1_def member3_def has_permission_def calm_def)
  have v2: "getVoiceCreatorByGuildId bot_cannot_manage ?w ''g1'' = Inr (Some creator1)"
    by (simp add: getVoiceCreatorByGuildId_def bot_cannot_manage_def calm_def world_room3_def
          world1_def creator1_def)
  have r2: "getRoom bot_cannot_manage ?w ''c1'' = Inr (Some (room1\<lparr>locked := True\<rparr>))"
    by (simp add: getRoom_def bot_cannot_manage_def calm_def findRoom_def room1_def)
  have p2: "locked (room1\<lparr>locked := True\<rparr>)
           \<and> has_permission bot_cannot_manage voice_chan (memberId member3) Connect"
    by (simp add: room1_def has_permission_def bot_cannot_manage_def)
  have c3: "state_channel world_room3 in_room3 = Some (''c1'', voice_chan)"
    by (simp add: state_channel_def world_room3_def world1_def in_room3_def voice_chan_def)
  have v3: "getVoiceCreatorByGuildId calm world_room3 ''g1'' = Inr (Some creator1)"
    by (simp add: getVoiceCreatorByGuildId_def calm_def world_room3_def world1_def creator1_def)
  have r3: "getRoom calm world_room3 ''c1'' = Inr (Some room1)"
    by (simp add: getRoom_def calm_def findRoom_def room1_def world_room3_def world1_def)
  have p3: "\<not> locked room1" by (simp add: room1_def)
  have 1: "\<exists>w'. handleVoiceJoin calm in_room3 ?w = Inr w'
      \<and> map_of (voice w') (memberId member3) = None
      \<and> Disconnected (memberId member3) ''Room is locked - you do not have permission to join''
          \<in> set (out w')"
    using lock_gate [OF g c m v l r] p by blast
  have 2: "\<exists>w'. handleVoiceJoin bot_cannot_manage in_room3 ?w = Inr w' \<and> voice w' = voice ?w"
    using lock_gate [OF g c m v2 l r2] p2 by blast
  have 3: "handleVoiceJoin calm in_room3 world_room3 = Inr (cancelRoomDeletion ''c1'' world_room3)"
    using lock_gate [OF g c3 m v3 l r3] p3 by blast
  show ?thesis
    using 1 2 3 by blast
qed

text \<open>
  C3 as stated fails where the guild has no Lobby Config (after a VoiceMaster reset, say):
  \<open>u3\<close>, who is not the owner and has no Connect permission, enters the locked room
  \<open>c1\<close>; the handler returns before it looks the room up, and \<open>u3\<close> stays connected.
\<close>

theorem locked_room_without_config_not_gated:
  "locked (room1\<lparr>locked := True\<rparr>)
   \<and> memberId member3 \<noteq> ownerId (room1\<lparr>locked := True\<rparr>)
   \<and> \<not> has_permission calm voice_chan (memberId member3) Connect
   \<and> execute calm nowhere3 in_room3 (world_room3\<lparr>rooms := [room1\<lparr>locked := True\<rparr>], creators := []\<rparr>)
       = world_room3\<lparr>rooms := [room1\<lparr>locked := True\<rparr>], creators := []\<rparr>
   \<and> map_of (voice (world_room3\<lparr>rooms := [room1\<lparr>locked := True\<rparr>], creators := []\<rparr>)) ''u3''
       = Some ''c1''"
  by (simp add: execute_def handleVoiceJoin_def state_channel_def getVoiceCreatorByGuildId_def
        world_room3_def world1_def nowhere3_def in_room3_def voice_chan_def room1_def member3_def
        has_permission_def calm_def)

subsection \<open>Provisioning\<close>

text \<open>\<open>createPrivateRoom\<close> by itself: the member is disconnected with a reason, and no
  channel is created and no row written, at each of its precondition checks that ends in
  a disconnect (the platform accepting the disconnect).\<close>

lemma createPrivateRoom_aborts:
  assumes st: "vs_guild st = Some g" "state_channel w st = Some (l, lch)" "vs_member st = Some m"
    and dc: "apiFault x (VoiceDisconnect (memberId m)) = None"
    and unmet: "readyStateAtEntry x \<noteq> 1
      \<or> (getVoiceCreatorByGuildId x w g = Inr (Some vc)
          \<and> ((\<forall>cat. channels_fetch x (FetchChannel (categoryId vc)) w g (categoryId vc) = Inr (Some cat)
                     \<longrightarrow> chType cat \<noteq> GuildCategory)
              \<or> catch_null (members_fetch x g (botId x)) = None
              \<or> (\<exists>cat bm. channels_fetch x (FetchChannel (categoryId vc)) w g (categoryId vc) = Inr (Some cat)
                     \<and> catch_null (members_fetch x g (botId x)) = Some bm
                     \<and> (\<not> has_permission x cat bm ManageChannels
                          \<or> \<not> has_permission x cat bm Connect
                          \<or> \<not> has_permission x cat bm MoveMembers))))"
  shows "channels (createPrivateRoom x st w) = channels w
       \<and> rooms (createPrivateRoom x st w) = rooms w
       \<and> map_of (voice (createPrivateRoom x st w)) (memberId m) = None
       \<and> (\<exists>reason. reason \<noteq> [] \<and> Disconnected (memberId m) reason \<in> set (out (createPrivateRoom x st w)))"
  using st unmet
  by (auto simp: createPrivateRoom_def createPrivateRoom_try_def disconnect_quiet_ok [OF dc] Let_def
      split: sum.splits option.splits)

lemma handleVoiceLeave_frame:
  assumes "handleVoiceLeave x st w = Inr w1"
  shows "rooms w1 = rooms w \<and> creators w1 = creators w \<and> channels w1 = channels w
       \<and> deletionTimeouts w1 = deletionTimeouts w"
  using assms
  by (auto simp: handleVoiceLeave_def setTimeout_def split: option.splits sum.splits prod.splits)

lemma handleVoiceLeave_returns:
  assumes "state_channel w st = Some (c0, ch0)" and "dbFault x (GetRoom c0) = None"
  shows "\<exists>w1. handleVoiceLeave x st w = Inr w1"
proof -
  obtain g0 where "vs_guild st = Some g0"
    using assms(1) by (auto simp: state_channel_def split: option.splits)
  then show ?thesis
    using assms by (auto simp: handleVoiceLeave_def getRoom_def split: option.splits)
qed

lemma state_channel_frame:
  "channels w' = channels w \<Longrightarrow> state_channel w' st = state_channel w st"
  unfolding state_channel_def by (simp only:)

lemma getVoiceCreatorByGuildId_frame:
  "creators w' = creators w \<Longrightarrow> getVoiceCreatorByGuildId x w' g = getVoiceCreatorByGuildId x w g"
  unfolding getVoiceCreatorByGuildId_def by (simp only:)

lemma channels_fetch_all_frame:
  "channels w' = channels w \<Longrightarrow> channels_fetch x op w' g c = channels_fetch x op w g c"
  unfolding channels_fetch_def by (simp only:)

text \<open>
  C7, as the code has it. A member enters the lobby channel of a guild whose Lobby Config
  exists (from no channel, or switching from another channel whose leave handling does not
  throw). When the category of the Lobby Config cannot be fetched or is not a category, or
  the bot lacks ManageChannels, Connect or MoveMembers on it, the event handler creates no
  channel and writes no row, and it disconnects the member with a reason (the platform
  accepting the disconnect).
\<close>

theorem unmet_precondition_disconnects:
  assumes new: "vs_guild newState = Some g" "state_channel w newState = Some (l, lch)"
      "vs_member newState = Some m"
    and old: "state_channel w oldState = None
        \<or> (\<exists>c0 ch0. state_channel w oldState = Some (c0, ch0) \<and> c0 \<noteq> l \<and> dbFault x (GetRoom c0) = None)"
    and cfg: "getVoiceCreatorByGuildId x w g = Inr (Some vc)" "l = voiceChannelId vc"
    and dc: "apiFault x (VoiceDisconnect (memberId m)) = None"
    and unmet: "(\<forall>cat. channels_fetch x (FetchChannel (categoryId vc)) w g (categoryId vc) = Inr (Some cat)
                   \<longrightarrow> chType cat \<noteq> GuildCategory)
        \<or> (\<exists>cat bm. channels_fetch x (FetchChannel (categoryId vc)) w g (categoryId vc) = Inr (Some cat)
                \<and> catch_null (members_fetch x g (botId x)) = Some bm
                \<and> (\<not> has_permission x cat bm ManageChannels
                     \<or> \<not> has_permission x cat bm Connect
                     \<or> \<not> has_permission x cat bm MoveMembers))"
  shows "channels (execute x oldState newState w) = channels w
       \<and> rooms (execute x oldState newState w) = rooms w
       \<and> map_of (voice (execute x oldState newState w)) (memberId m) = None
       \<and> (\<exists>reason. reason \<noteq> []
             \<and> Disconnected (memberId m) reason \<in> set (out (execute x oldState newState w)))"
proof -
  have aborts: "channels (createPrivateRoom x newState v) = channels w
       \<and> rooms (createPrivateRoom x newState v) = rooms w
       \<and> map_of (voice (createPrivateRoom x newState v)) (memberId m) = None
       \<and> (\<exists>reason. reason \<noteq> [] \<and> Disconnected (memberId m) reason \<in> set (out (createPrivateRoom x newState v)))"
    if same: "rooms v = rooms w" "creators v = creators w" "channels v = channels w" for v
  proof -
    have st: "state_channel v newState = Some (l, lch)"
      using new(2) state_channel_frame [OF same(3)] by simp
    have vc: "getVoiceCreatorByGuildId x v g = Inr (Some vc)"
      using cfg(1) getVoiceCreatorByGuildId_frame [OF same(2)] by simp
    have fetch: "channels_fetch x (FetchChannel (categoryId vc)) v g (categoryId vc)
                   = channels_fetch x (FetchChannel (categoryId vc)) w g (categoryId vc)"
      using channels_fetch_all_frame [OF same(3)] .
    have "readyStateAtEntry x \<noteq> 1
      \<or> (getVoiceCreatorByGuildId x v g = Inr (Some vc)
          \<and> ((\<forall>cat. channels_fetch x (FetchChannel (categoryId vc)) v g (categoryId vc) = Inr (Some cat)
                     \<longrightarrow> chType cat \<noteq> GuildCategory)
              \<or> catch_null (members_fetch x g (botId x)) = None
              \<or> (\<exists>cat bm. channels_fetch x (FetchChannel (categoryId vc)) v g (categoryId vc) = Inr (Some cat)
                     \<and> catch_null (members_fetch x g (botId x)) = Some bm
                     \<and> (\<not> has_permission x cat bm ManageChannels
                          \<or> \<not> has_permission x cat bm Connect
                          \<or> \<not> has_permission x cat bm MoveMembers))))"
      unfolding fetch using vc unmet by blast
    from createPrivateRoom_aborts [OF new(1) st new(3) dc this]
    show ?thesis using same by simp
  qed
  have join: "handleVoiceJoin x newState v = Inr (createPrivateRoom x newState v)"
    if same: "creators v = creators w" "channels v = channels w" for v
    using new cfg state_channel_frame [OF same(2), of newState]
      getVoiceCreatorByGuildId_frame [OF same(1), of x g]
    by (simp add: handleVoiceJoin_def)
  from old show ?thesis
  proof
    assume none: "state_channel w oldState = None"
    define w1 where "w1 = createPrivateRoom x newState w"
    have a: "channels w1 = channels w" "rooms w1 = rooms w"
        "map_of (voice w1) (memberId m) = None"
        "\<exists>reason. reason \<noteq> [] \<and> Disconnected (memberId m) reason \<in> set (out w1)"
      using aborts [of w] by (simp_all add: w1_def)
    have "state_channel w1 oldState = None"
      using none state_channel_frame [OF a(1)] by simp
    then have "execute x oldState newState w = w1"
      using none new(2) join [of w] by (simp add: execute_def w1_def)
    then show ?thesis using a by simp
  next
    assume "\<exists>c0 ch0. state_channel w oldState = Some (c0, ch0) \<and> c0 \<noteq> l \<and> dbFault x (GetRoom c0) = None"
    then obtain c0 ch0 where o: "state_channel w oldState = Some (c0, ch0)" "c0 \<noteq> l"
        "dbFault x (GetRoom c0) = None"
      by blast
    obtain v where leave: "handleVoiceLeave x oldState w = Inr v"
      using handleVoiceLeave_returns [OF o(1,3)] by blast
    have same: "rooms v = rooms w" "creators v = creators w" "channels v = channels w"
      using handleVoiceLeave_frame [OF leave] by simp_all
    have "execute x oldState newState w = createPrivateRoom x newState v"
      using o new(2) leave join [OF same(2,3)] by (simp add: execute_def handleVoiceSwitch_def)
    then show ?thesis using aborts [OF same] by simp
  qed
qed

theorem unmet_precondition_disconnects_witness:
  "channels (execute bot_cannot_manage nowhere3 in_lobby3 world_lobby3) = channels world_lobby3
   \<and> rooms (execute bot_cannot_manage nowhere3 in_lobby3 world_lobby3) = rooms world_lobby3
   \<and> map_of (voice (execute bot_cannot_manage nowhere3 in_lobby3 world_lobby3)) (memberId member3) = None
   \<and> (\<exists>reason. reason \<noteq> []
         \<and> Disconnected (memberId member3) reason
             \<in> set (out (execute bot_cannot_manage nowhere3 in_lobby3 world_lobby3)))"
proof -
  let ?cat = "voice_chan\<lparr>chType := GuildCategory, chParent := None\<rparr>"
  have g: "vs_guild in_lobby3 = Some ''g1''" by (simp add: in_lobby3_def)
  have c: "state_channel world_lobby3 in_lobby3 = Some (''lobby'', voice_chan\<lparr>chName := ''Join to Create''\<rparr>)"
    by (simp add: state_channel_def world_lobby3_def world1_def in_lobby3_def voice_chan_def)
  have m: "vs_member in_lobby3 = Some member3" by (simp add: in_lobby3_def)
  have o: "state_channel world_lobby3 nowhere3 = None
      \<or> (\<exists>c0 ch0. state_channel world_lobby3 nowhere3 = Some (c0, ch0) \<and> c0 \<noteq> ''lobby''
            \<and> dbFault bot_cannot_manage (GetRoom c0) = None)"
    by (simp add: state_channel_def nowhere3_def)
  have d: "apiFault bot_cannot_manage (VoiceDisconnect (memberId member3)) = None"
    by (simp add: bot_cannot_manage_def calm_def)
  have v: "getVoiceCreatorByGuildId bot_cannot_manage world_lobby3 ''g1'' = Inr (Some creator1)"
    by (simp add: getVoiceCreatorByGuildId_def bot_cannot_manage_def calm_def world_lobby3_def
          world1_def creator1_def)
  have l: "''lobby'' = voiceChannelId creator1" by (simp add: creator1_def)
  have f: "channels_fetch bot_cannot_manage (FetchChannel (categoryId creator1)) world_lobby3 ''g1''
             (categoryId creator1) = Inr (Some ?cat)"
    by (simp add: channels_fetch_def bot_cannot_manage_def calm_def world_lobby3_def world1_def
          creator1_def voice_chan_def)
  have b: "catch_null (members_fetch bot_cannot_manage ''g1'' (botId bot_cannot_manage)) = Some ''bot''"
    by (simp add: catch_null_def members_fetch_def bot_cannot_manage_def calm_def)
  have p: "\<not> has_permission bot_cannot_manage ?cat ''bot'' ManageChannels"
    by (simp add: has_permission_def bot_cannot_manage_def calm_def)
  have unmet: "(\<forall>cat. channels_fetch bot_cannot_manage (FetchChannel (categoryId creator1)) world_lobby3 ''g1''
                   (categoryId creator1) = Inr (Some cat)
                 \<longrightarrow> chType cat \<noteq> GuildCategory)
      \<or> (\<exists>cat bm. channels_fetch bot_cannot_manage (FetchChannel (categoryId creator1)) world_lobby3
               ''g1'' (categoryId creator1) = Inr (Some cat)
             \<and> catch_null (members_fetch bot_cannot_manage ''g1'' (botId bot_cannot_manage)) = Some bm
             \<and> (\<not> has_permission bot_cannot_manage cat bm ManageChannels
                  \<or> \<not> has_permission bot_cannot_manage cat bm Connect
                  \<or> \<not> has_permission bot_cannot_manage cat bm MoveMembers))"
    using f b p by blast
  show ?thesis
    using unmet_precondition_disconnects [OF g c m o v l d unmet] .
qed

text \<open>
  C7 as stated fails in two places. With the Lobby Config missing, a member entering the
  former lobby channel triggers nothing at all, and \<open>createPrivateRoom\<close> itself only
  writes a debug line: nobody is disconnected. And the capabilities tested are
  ManageChannels, Connect and MoveMembers: a bot without the manage-permissions capability
  (ManageRoles) provisions the room.
\<close>

theorem lobby_join_without_config_is_silent:
  "execute calm nowhere3 in_lobby3 (world_lobby3\<lparr>creators := []\<rparr>) = world_lobby3\<lparr>creators := []\<rparr>
   \<and> createPrivateRoom calm in_lobby3 (world_lobby3\<lparr>creators := []\<rparr>)
       = logger Debug ''[VOICEMASTER] No voice creator found for guild g1'' (world_lobby3\<lparr>creators := []\<rparr>)
   \<and> map_of (voice (world_lobby3\<lparr>creators := []\<rparr>)) ''u3'' = Some ''lobby''
   \<and> \<not> has_permission calm (voice_chan\<lparr>chType := GuildCategory, chParent := None\<rparr>) ''bot'' ManageRoles
   \<and> map_option ownerId (findRoom (rooms (createPrivateRoom calm in_lobby3 world_lobby3)) ''c9'')
       = Some ''u3''"
  by (simp add: execute_def handleVoiceJoin_def createPrivateRoom_def createPrivateRoom_try_def
        provision_room_def state_channel_def getVoiceCreatorByGuildId_def channels_fetch_def
        members_fetch_def catch_null_def channels_create_def voice_setChannel_def createRoom_def
        findRoom_def has_permission_def
        world_lobby3_def world1_def nowhere3_def in_lobby3_def voice_chan_def room1_def member3_def
        creator1_def calm_def)

lemma createPrivateRoom_provisions:
  assumes "vs_guild st = Some g" "state_channel w st = Some (l, lch)" "vs_member st = Some m"
    and "readyStateAtEntry x = 1"
    and "getVoiceCreatorByGuildId x w g = Inr (Some vc)"
    and "channels_fetch x (FetchChannel (categoryId vc)) w g (categoryId vc) = Inr (Some cat)"
    and "chType cat = GuildCategory"
    and "catch_null (members_fetch x g (botId x)) = Some bm"
    and "has_permission x cat bm ManageChannels" "has_permission x cat bm Connect"
        "has_permission x cat bm MoveMembers"
  shows "createPrivateRoom x st w = provision_room x g m (categoryId vc) w"
  using assms by (simp add: createPrivateRoom_def createPrivateRoom_try_def)

lemma findRoom_append:
  "findRoom (rs @ [r]) c =
     (case findRoom rs c of Some r' \<Rightarrow> Some r' | None \<Rightarrow> if channelId r = c then Some r else None)"
  by (induction rs) (auto simp: findRoom_def)

lemma map_of_filter_None: "(\<And>v. \<not> P (k, v)) \<Longrightarrow> map_of (filter P xs) k = None"
  by (induction xs) auto

lemma provision_room_all_or_nothing:
  assumes create: "apiFault x ChannelCreate = None"
    and fresh: "findRoom (rooms w) (newChannelId x) = None"
    and comp: "apiFault x (ChannelDelete (newChannelId x)) = None"
              "apiFault x (VoiceDisconnect (memberId m)) = None"
  shows "(apiFault x (SetChannel (memberId m)) = None \<and> readyStateAtWrite x = 1
            \<and> dbFault x (CreateRoom (newChannelId x)) = None \<longrightarrow>
          channels (provision_room x g m cat w) (newChannelId x) \<noteq> None
          \<and> findRoom (rooms (provision_room x g m cat w)) (newChannelId x)
              = Some \<lparr>channelId = newChannelId x, guildId = g, ownerId = memberId m,
                       locked = False, hidden = False, limit = None\<rparr>
          \<and> map_of (voice (provision_room x g m cat w)) (memberId m) = Some (newChannelId x))
       \<and> (\<not> (apiFault x (SetChannel (memberId m)) = None \<and> readyStateAtWrite x = 1
               \<and> dbFault x (CreateRoom (newChannelId x)) = None) \<longrightarrow>
          channels (provision_room x g m cat w) (newChannelId x) = None
          \<and> findRoom (rooms (provision_room x g m cat w)) (newChannelId x) = None
          \<and> map_of (voice (provision_room x g m cat w)) (memberId m) = None)"
  using assms
  by (auto simp: provision_room_def channels_create_def voice_setChannel_def createRoom_def
        room_save_failed_def channel_delete_def disconnect_quiet_ok catch_ignore_def
        findRoom_append Let_def map_of_filter_None
      split: option.splits sum.splits Thrown.splits)



text \<open>
  C1. \<open>createPrivateRoom\<close> past its precondition checks, with the channel creation
  accepted under an id that has no row yet and the compensating calls (channel deletion,
  disconnect) accepted: whatever the move of the member and the write of the row do, the
  outcome is all or nothing. If the move is accepted, the database is connected and the
  insert is accepted, the channel exists, its row exists with the member as owner, and the
  member is in the channel. In every other case the channel does not exist, no row for it
  exists, and the member is in no voice channel.
\<close>

theorem provisioning_is_atomic:
  assumes "vs_guild st = Some g" "state_channel w st = Some (l, lch)" "vs_member st = Some m"
    and "readyStateAtEntry x = 1"
    and "getVoiceCreatorByGuildId x w g = Inr (Some vc)"
    and "channels_fetch x (FetchChannel (categoryId vc)) w g (categoryId vc) = Inr (Some cat)"
    and "chType cat = GuildCategory"
    and "catch_null (members_fetch x g (botId x)) = Some bm"
    and "has_permission x cat bm ManageChannels" "has_permission x cat bm Connect"
        "has_permission x cat bm MoveMembers"
    and "apiFault x ChannelCreate = None"
    and "findRoom (rooms w) (newChannelId x) = None"
    and "apiFault x (ChannelDelete (newChannelId x)) = None"
    and "apiFault x (VoiceDisconnect (memberId m)) = None"
  shows "(apiFault x (SetChannel (memberId m)) = None \<and> readyStateAtWrite x = 1
            \<and> dbFault x (CreateRoom (newChannelId x)) = None \<longrightarrow>
          channels (createPrivateRoom x st w) (newChannelId x) \<noteq> None
          \<and> findRoom (rooms (createPrivateRoom x st w)) (newChannelId x)
              = Some \<lparr>channelId = newChannelId x, guildId = g, ownerId = memberId m,
                       locked = False, hidden = False, limit = None\<rparr>
          \<and> map_of (voice (createPrivateRoom x st w)) (memberId m) = Some (newChannelId x))
       \<and> (\<not> (apiFault x (SetChannel (memberId m)) = None \<and> readyStateAtWrite x = 1
               \<and> dbFault x (CreateRoom (newChannelId x)) = None) \<longrightarrow>
          channels (createPrivateRoom x st w) (newChannelId x) = None
          \<and> findRoom (rooms (createPrivateRoom x st w)) (newChannelId x) = None
          \<and> map_of (voice (createPrivateRoom x st w)) (memberId m) = None)"
  unfolding createPrivateRoom_provisions [OF assms(1-11)]
  by (rule provision_room_all_or_nothing [OF assms(12-15)])

theorem provisioning_is_atomic_witness:
  "channels (createPrivateRoom move_fails in_lobby3 world_lobby3) ''c9'' = None
   \<and> findRoom (rooms (createPrivateRoom move_fails in_lobby3 world_lobby3)) ''c9'' = None
   \<and> map_of (voice (createPrivateRoom move_fails in_lobby3 world_lobby3)) ''u3'' = None
   \<and> channels (createPrivateRoom calm in_lobby3 world_lobby3) ''c9'' \<noteq> None
   \<and> findRoom (rooms (createPrivateRoom calm in_lobby3 world_lobby3)) ''c9''
       = Some \<lparr>channelId = ''c9'', guildId = ''g1'', ownerId = ''u3'',
                locked = False, hidden = False, limit = None\<rparr>
   \<and> map_of (voice (createPrivateRoom calm in_lobby3 world_lobby3)) ''u3'' = Some ''c9''"
proof -
  let ?cat = "voice_chan\<lparr>chType := GuildCategory, chParent := None\<rparr>"
  have g: "vs_guild in_lobby3 = Some ''g1''" by (simp add: in_lobby3_def)
  have c: "state_channel world_lobby3 in_lobby3 = Some (''lobby'', voice_chan\<lparr>chName := ''Join to Create''\<rparr>)"
    by (simp add: state_channel_def world_lobby3_def world1_def in_lobby3_def voice_chan_def)
  have m: "vs_member in_lobby3 = Some member3" by (simp add: in_lobby3_def)
  have t: "chType ?cat = GuildCategory" by simp
  have ids: "memberId member3 = ''u3''" by (simp add: member3_def)
  \<comment> \<open>The move is rejected.\<close>
  have e: "readyStateAtEntry move_fails = 1" by (simp add: move_fails_def calm_def)
  have v: "getVoiceCreatorByGuildId move_fails world_lobby3 ''g1'' = Inr (Some creator1)"
    by (simp add: getVoiceCreatorByGuildId_def move_fails_def calm_def world_lobby3_def world1_def
          creator1_def)
  have f: "channels_fetch move_fails (FetchChannel (categoryId creator1)) world_lobby3 ''g1''
             (categoryId creator1) = Inr (Some ?cat)"
    by (simp add: channels_fetch_def move_fails_def calm_def world_lobby3_def world1_def
          creator1_def voice_chan_def)
  have b: "catch_null (members_fetch move_fails ''g1'' (botId move_fails)) = Some ''bot''"
    by (simp add: catch_null_def members_fetch_def move_fails_def calm_def)
  have p: "has_permission move_fails ?cat ''bot'' ManageChannels"
    "has_permission move_fails ?cat ''bot'' Connect"
    "has_permission move_fails ?cat ''bot'' MoveMembers"
    by (simp_all add: has_permission_def move_fails_def calm_def)
  have n: "newChannelId move_fails = ''c9''" by (simp add: move_fails_def calm_def)
  have cr: "apiFault move_fails ChannelCreate = None" by (simp add: move_fails_def)
  have fr: "findRoom (rooms world_lobby3) (newChannelId move_fails) = None"
    by (simp add: n findRoom_def world_lobby3_def world1_def room1_def)
  have cd: "apiFault move_fails (ChannelDelete (newChannelId move_fails)) = None"
    by (simp add: move_fails_def)
  have vd: "apiFault move_fails (VoiceDisconnect (memberId member3)) = None"
    by (simp add: move_fails_def)
  have mv: "apiFault move_fails (SetChannel (memberId member3)) \<noteq> None"
    by (simp add: move_fails_def member3_def)
  have failed: "channels (createPrivateRoom move_fails in_lobby3 world_lobby3) ''c9'' = None
      \<and> findRoom (rooms (createPrivateRoom move_fails in_lobby3 world_lobby3)) ''c9'' = None
      \<and> map_of (voice (createPrivateRoom move_fails in_lobby3 world_lobby3)) ''u3'' = None"
    using provisioning_is_atomic [OF g c m e v f t b p cr fr cd vd] mv
    by (simp add: n ids)
  \<comment> \<open>Nothing is rejected.\<close>
  have e': "readyStateAtEntry calm = 1" by (simp add: calm_def)
  have v': "getVoiceCreatorByGuildId calm world_lobby3 ''g1'' = Inr (Some creator1)"
    by (simp add: getVoiceCreatorByGuildId_def calm_def world_lobby3_def world1_def creator1_def)
  have f': "channels_fetch calm (FetchChannel (categoryId creator1)) world_lobby3 ''g1''
             (categoryId creator1) = Inr (Some ?cat)"
    by (simp add: channels_fetch_def calm_def world_lobby3_def world1_def creator1_def voice_chan_def)
  have b': "catch_null (members_fetch calm ''g1'' (botId calm)) = Some ''bot''"
    by (simp add: catch_null_def members_fetch_def calm_def)
  have p': "has_permission calm ?cat ''bot'' ManageChannels" "has_permission calm ?cat ''bot'' Connect"
    "has_permission calm ?cat ''bot'' MoveMembers"
    by (simp_all add: has_permission_def calm_def)
  have n': "newChannelId calm = ''c9''" by (simp add: calm_def)
  have cr': "apiFault calm ChannelCreate = None" by (simp add: calm_def)
  have fr': "findRoom (rooms world_lobby3) (newChannelId calm) = None"
    by (simp add: n' findRoom_def world_lobby3_def world1_def room1_def)
  have cd': "apiFault calm (ChannelDelete (newChannelId calm)) = None" by (simp add: calm_def)
  have vd': "apiFault calm (VoiceDisconnect (memberId member3)) = None" by (simp add: calm_def)
  have ok: "apiFault calm (SetChannel (memberId member3)) = None \<and> readyStateAtWrite calm = 1
      \<and> dbFault calm (CreateRoom (newChannelId calm)) = None"
    by (simp add: calm_def)
  have succeeded: "channels (createPrivateRoom calm in_lobby3 world_lobby3) ''c9'' \<noteq> None
      \<and> findRoom (rooms (createPrivateRoom calm in_lobby3 world_lobby3)) ''c9''
          = Some \<lparr>channelId = ''c9'', guildId = ''g1'', ownerId = ''u3'',
                   locked = False, hidden = False, limit = None\<rparr>
      \<and> map_of (voice (createPrivateRoom calm in_lobby3 world_lobby3)) ''u3'' = Some ''c9''"
    using provisioning_is_atomic [OF g c m e' v' f' t b' p' cr' fr' cd' vd'] ok
    by (simp add: n' ids)
  show ?thesis
    using failed succeeded by blast
qed

subsection \<open>The reaper\<close>

lemma findRoom_delete_first:
  "distinct (map channelId rs) \<Longrightarrow>
   findRoom (delete_first c rs) k = (if k = c then None else findRoom rs k)"
proof (induction rs)
  case Nil
  then show ?case by (simp add: findRoom_def)
next
  case (Cons r rs)
  have "channelId r \<notin> channelId ` set rs" using Cons.prems by simp
  then have absent: "find (\<lambda>r'. channelId r' = channelId r) rs = None"
    by (metis (mono_tags, lifting) find_None_iff imageI)
  show ?case
    using Cons absent by (auto simp: findRoom_def)
qed

lemma deletionTimeouts_delete_fields [simp]:
  "rooms (deletionTimeouts_delete c w) = rooms w" "guilds (deletionTimeouts_delete c w) = guilds w"
  "channels (deletionTimeouts_delete c w) = channels w" "voice (deletionTimeouts_delete c w) = voice w"
  "timers (deletionTimeouts_delete c w) = timers w" "now (deletionTimeouts_delete c w) = now w"
  "nextHandle (deletionTimeouts_delete c w) = nextHandle w" "out (deletionTimeouts_delete c w) = out w"
  by (simp_all add: deletionTimeouts_delete_def)

lemma channels_fetch_frame:
  "channels w' c = channels w c \<Longrightarrow> channels_fetch x op w' g c = channels_fetch x op w g c"
  unfolding channels_fetch_def by (simp only:)

lemma fetch_voice_channel_frame:
  "channels w' c = channels w c \<Longrightarrow> fetch_voice_channel x w' g c = fetch_voice_channel x w g c"
  unfolding fetch_voice_channel_def by (simp only: channels_fetch_frame [of w' c w])

lemma getRoom_frame:
  "findRoom (rooms w') c = findRoom (rooms w) c \<Longrightarrow> getRoom x w' c = getRoom x w c"
  unfolding getRoom_def by (simp only:)

lemma guilds_fetch_frame:
  "guilds w' = guilds w \<Longrightarrow> guilds_fetch x w' g = guilds_fetch x w g"
  unfolding guilds_fetch_def by (simp only:)

lemma members_of_frame:
  "voice w' = voice w \<Longrightarrow> members_of w' c = members_of w c"
  by (simp add: members_of_def)

lemma final_deletion_empty:
  assumes "guilds_fetch x w g = Some g'"
    and "fetch_voice_channel x w g c = Some ch"
    and "getRoom x w c = Inr (Some room)"
    and "members_of w c = []"
  shows "final_deletion x c g w = delete_empty_room x c g ch (deletionTimeouts_delete c w)"
proof -
  let ?w = "deletionTimeouts_delete c w"
  have "guilds_fetch x ?w g = Some g'" "fetch_voice_channel x ?w g c = Some ch"
    "getRoom x ?w c = Inr (Some room)" "members_of ?w c = []"
    using assms
      guilds_fetch_frame [of ?w w x g] fetch_voice_channel_frame [of ?w c w x g]
      getRoom_frame [of ?w c w x] members_of_frame [of ?w w c]
    by simp_all
  then show ?thesis
    by (simp add: final_deletion_def final_deletion_try_def Let_def)
qed

text \<open>The failure branches of the 15 second callback on a room that is empty, with guild,
  channel, row and the bot's member resolved. A rejection of the channel deletion whose
  message contains "rate limit" (and not "Missing Permissions") leaves the registry as it
  is. Without ManageChannels, or on a "Missing Permissions" rejection, the row is deleted
  (the database accepting the delete), the channel stays, and the failure is logged at
  error level. Any other rejection of the channel deletion, whatever its cause, deletes
  the row as well and leaves the channel.\<close>

lemma final_deletion_failure_branches:
  assumes "guilds_fetch x w g = Some g'"
    and "fetch_voice_channel x w g c = Some ch"
    and "getRoom x w c = Inr (Some room)"
    and "members_of w c = []"
    and "catch_null (members_fetch x g (botId x)) = Some bm"
    and "distinct (map channelId (rooms w))"
  shows "(has_permission x ch bm ManageChannels \<and> apiFault x (ChannelDelete c) = Some e
            \<and> message_includes e ''rate limit'' \<and> \<not> message_includes e ''Missing Permissions'' \<longrightarrow>
          rooms (final_deletion x c g w) = rooms w \<and> channels (final_deletion x c g w) = channels w)
       \<and> (\<not> has_permission x ch bm ManageChannels \<and> dbFault x (DeleteRoom c) = None \<longrightarrow>
          findRoom (rooms (final_deletion x c g w)) c = None
          \<and> channels (final_deletion x c g w) = channels w
          \<and> Log Err (''[VOICEMASTER] Bot lacks ManageChannels permission for room '' @ c @ '', cannot delete'')
              \<in> set (out (final_deletion x c g w)))
       \<and> (has_permission x ch bm ManageChannels \<and> apiFault x (ChannelDelete c) = Some e
            \<and> message_includes e ''Missing Permissions'' \<and> dbFault x (DeleteRoom c) = None \<longrightarrow>
          findRoom (rooms (final_deletion x c g w)) c = None
          \<and> channels (final_deletion x c g w) = channels w
          \<and> Log Err (''[VOICEMASTER] Bot lacks permissions to delete channel '' @ c)
              \<in> set (out (final_deletion x c g w)))
       \<and> (has_permission x ch bm ManageChannels \<and> apiFault x (ChannelDelete c) = Some e
            \<and> \<not> message_includes e ''rate limit'' \<and> dbFault x (DeleteRoom c) = None \<longrightarrow>
          findRoom (rooms (final_deletion x c g w)) c = None
          \<and> channels (final_deletion x c g w) = channels w)"
  using assms(5,6)
  by (auto simp: final_deletion_empty [OF assms(1-4)] delete_empty_room_def channel_delete_def
        deleteRoom_quiet_def deleteRoom_def catch_ignore_def delete_row_logged_def
        findRoom_delete_first Let_def)


lemma clearTimeout_fields [simp]:
  "rooms (clearTimeout h w) = rooms w" "guilds (clearTimeout h w) = guilds w"
  "channels (clearTimeout h w) = channels w" "voice (clearTimeout h w) = voice w"
  "deletionTimeouts (clearTimeout h w) = deletionTimeouts w" "now (clearTimeout h w) = now w"
  "nextHandle (clearTimeout h w) = nextHandle w" "out (clearTimeout h w) = out w"
  "timers (clearTimeout h w) = filter (\<lambda>(h', _). h' \<noteq> h) (timers w)"
  by (simp_all add: clearTimeout_def)






lemma deleteRoom_quiet_fields [simp]:
  "channels (deleteRoom_quiet x c w) = channels w" "voice (deleteRoom_quiet x c w) = voice w"
  by (simp_all add: deleteRoom_quiet_def deleteRoom_def catch_ignore_def split: option.splits)



lemma setTimeout_fields [simp]:
  "rooms (snd (setTimeout cb d w)) = rooms w" "guilds (snd (setTimeout cb d w)) = guilds w"
  "creators (snd (setTimeout cb d w)) = creators w"
  "channels (snd (setTimeout cb d w)) = channels w" "voice (snd (setTimeout cb d w)) = voice w"
  "deletionTimeouts (snd (setTimeout cb d w)) = deletionTimeouts w"
  "now (snd (setTimeout cb d w)) = now w" "out (snd (setTimeout cb d w)) = out w"
  "nextHandle (snd (setTimeout cb d w)) = Suc (nextHandle w)"
  "timers (snd (setTimeout cb d w)) = timers w @ [(nextHandle w, \<lparr>due = now w + d, callback = cb\<rparr>)]"
  "fst (setTimeout cb d w) = nextHandle w"
  by (simp_all add: setTimeout_def)

lemma deletionTimeouts_set_fields [simp]:
  "rooms (deletionTimeouts_set c h w) = rooms w" "guilds (deletionTimeouts_set c h w) = guilds w"
  "channels (deletionTimeouts_set c h w) = channels w" "voice (deletionTimeouts_set c h w) = voice w"
  "timers (deletionTimeouts_set c h w) = timers w" "now (deletionTimeouts_set c h w) = now w"
  "nextHandle (deletionTimeouts_set c h w) = nextHandle w" "out (deletionTimeouts_set c h w) = out w"
  "map_of (deletionTimeouts (deletionTimeouts_set c h w)) c = Some h"
  by (simp_all add: deletionTimeouts_set_def)













subsection \<open>The startup sweep\<close>

lemma touches_only_refl [simp]: "touches_only c v v"
  by (simp add: touches_only_def)

lemma touches_only_trans: "touches_only c v v' \<Longrightarrow> touches_only c v' v'' \<Longrightarrow> touches_only c v v''"
  by (simp add: touches_only_def)

lemma touches_only_logger [simp]:
  "touches_only c v (logger l s v') = touches_only c v v'"
  "touches_only c (logger l s v) v' = touches_only c v v'"
  by (simp_all add: touches_only_def members_of_def)

lemma set_delete_first: "set (delete_first c rs) \<subseteq> set rs"
  by (induction rs) auto

lemma distinct_delete_first:
  "distinct (map channelId rs) \<Longrightarrow> distinct (map channelId (delete_first c rs))"
proof (induction rs)
  case Nil
  then show ?case by simp
next
  case (Cons r rs)
  then show ?case using set_delete_first [of c rs] by auto
qed

lemma findRoom_delete_first_other:
  "k \<noteq> c \<Longrightarrow> findRoom (delete_first c rs) k = findRoom rs k"
  by (induction rs) (auto simp: findRoom_def)

lemma touches_only_deleteRoom:
  "deleteRoom x c v = Inr v' \<Longrightarrow> touches_only c v v'"
  by (auto simp: deleteRoom_def touches_only_def members_of_def findRoom_delete_first_other
        distinct_delete_first split: option.splits)

lemma members_of_channel_delete:
  "k \<noteq> c \<Longrightarrow>
   filter (\<lambda>x. (case x of (_, c') \<Rightarrow> c' \<noteq> c) \<and> (case x of (m, c') \<Rightarrow> c' = k)) vs
     = filter (\<lambda>(m, c'). c' = k) vs"
  by (induction vs) auto

lemma touches_only_channel_delete:
  "channel_delete x c reason v = Inr v' \<Longrightarrow> touches_only c v v'"
  by (auto simp: channel_delete_def touches_only_def members_of_def members_of_channel_delete
        emit_def split: option.splits)

lemma drop_orphan_frame:
  "drop_orphan x c why (v, d, q) = Inr (v', d', q') \<Longrightarrow> touches_only c v v'"
  "drop_orphan x c why (v, d, q) = Inl (e, (v', d', q')) \<Longrightarrow> v' = v"
  by (auto simp: drop_orphan_def split: sum.splits dest: touches_only_deleteRoom)

lemma sweep_empty_try_frame:
  "sweep_empty_try x g c ch (v, d, q) = Inr (v', d', q') \<Longrightarrow> touches_only c v v'"
  "sweep_empty_try x g c ch (v, d, q) = Inl (e, (v', d', q')) \<Longrightarrow> touches_only c v v'"
  by (auto simp: sweep_empty_try_def Let_def
      split: sum.splits option.splits if_splits
      dest!: touches_only_deleteRoom touches_only_channel_delete
      intro: touches_only_trans)

lemma sweep_empty_frame:
  assumes "sweep_empty x g c ch (v, d, q) = Inr (v', d', q')
         \<or> sweep_empty x g c ch (v, d, q) = Inl (e, (v', d', q'))"
  shows "touches_only c v v'"
proof (cases "sweep_empty_try x g c ch (v, d, q)")
  case (Inr s')
  then show ?thesis
    using assms sweep_empty_try_frame(1) [of x g c ch v d q v' d' q']
    by (auto simp: sweep_empty_def)
next
  case (Inl p)
  obtain e0 w d0 q0 where p: "p = (e0, (w, d0, q0))" by (cases p) auto
  have t: "touches_only c v w"
    using Inl sweep_empty_try_frame(2) [of x g c ch v d q e0 w d0 q0] by (simp add: p)
  have "touches_only c w v'"
    using assms
    by (auto simp: sweep_empty_def Inl p Let_def
        split: option.splits sum.splits dest!: touches_only_deleteRoom)
  then show ?thesis
    using t by (rule touches_only_trans [rotated])
qed

lemma sweep_room_try_frame:
  assumes "sweep_room_try x r (v, d, q) = Inr (v', d', q')
         \<or> sweep_room_try x r (v, d, q) = Inl (e, (v', d', q'))"
  shows "touches_only (channelId r) v v'"
proof -
  let ?c = "channelId r"
  have orphan: "touches_only ?c v v'"
    if "drop_orphan x ?c why (v, d, q) = Inr (v', d', q')
        \<or> drop_orphan x ?c why (v, d, q) = Inl (e, (v', d', q'))" for why
    using that drop_orphan_frame(1) [of x ?c why v d q v' d' q'] drop_orphan_frame(2) [of x ?c why v d q e v' d' q']
    by auto
  show ?thesis
  proof (cases "guildId r \<notin> set (guilds v)")
    case True
    then show ?thesis using assms orphan [of "''guild not found''"]
      by (simp add: sweep_room_try_def)
  next
    case False
    note guild = this
    show ?thesis
    proof (cases "catch_null (channels_fetch x (FetchChannel ?c) v (guildId r) ?c)")
      case None
      then show ?thesis using assms guild orphan [of "''channel not found''"]
        by (simp add: sweep_room_try_def)
    next
      case (Some ch)
      show ?thesis
      proof (cases "chType ch \<noteq> GuildVoice")
        case True
        then show ?thesis using assms guild Some orphan [of "''not a voice channel''"]
          by (simp add: sweep_room_try_def)
      next
        case False
        note voice = this
        show ?thesis
        proof (cases "length (members_of v ?c) = 0")
          case True
          then show ?thesis
            using assms guild Some voice sweep_empty_frame [of x "guildId r" ?c ch v d q v' d' q' e]
            by (simp add: sweep_room_try_def)
        next
          case False
          then show ?thesis
            using assms guild Some voice by (auto simp: sweep_room_try_def)
        qed
      qed
    qed
  qed
qed

lemma sweep_room_frame:
  "touches_only (channelId r) v (fst (sweep_room x (v, d, q) r))"
proof (cases "sweep_room_try x r (v, d, q)")
  case (Inr s')
  obtain v' d' q' where s': "s' = (v', d', q')" by (cases s') auto
  show ?thesis
    using Inr sweep_room_try_frame [of x r v d q v' d' q'] by (simp add: sweep_room_def s')
next
  case (Inl p)
  obtain e0 w d0 q0 where p: "p = (e0, (w, d0, q0))" by (cases p) auto
  have t: "touches_only (channelId r) v w"
    using Inl sweep_room_try_frame [of x r v d q w d0 q0 e0] by (simp add: p)
  have "touches_only (channelId r) w (fst (sweep_room x (v, d, q) r))"
    by (auto simp: sweep_room_def Inl p Let_def
        split: sum.splits dest!: touches_only_deleteRoom)
  then show ?thesis
    using t by (rule touches_only_trans [rotated])
qed

lemma sweep_fold_frame:
  "k \<notin> channelId ` set rs \<Longrightarrow>
   guilds (fst (foldl (sweep_room x) s rs)) = guilds (fst s)
   \<and> channels (fst (foldl (sweep_room x) s rs)) k = channels (fst s) k
   \<and> findRoom (rooms (fst (foldl (sweep_room x) s rs))) k = findRoom (rooms (fst s)) k
   \<and> members_of (fst (foldl (sweep_room x) s rs)) k = members_of (fst s) k
   \<and> (distinct (map channelId (rooms (fst s)))
        \<longrightarrow> distinct (map channelId (rooms (fst (foldl (sweep_room x) s rs)))))"
proof (induction rs arbitrary: s)
  case Nil
  then show ?case by simp
next
  case (Cons r rs)
  obtain v d q where s: "s = (v, d, q)" by (cases s) auto
  have step: "touches_only (channelId r) v (fst (sweep_room x s r))"
    unfolding s by (rule sweep_room_frame)
  have k: "k \<noteq> channelId r" "k \<notin> channelId ` set rs"
    using Cons.prems by auto
  show ?case
    using Cons.IH [OF k(2), of "sweep_room x s r"] step k(1)
    by (simp add: touches_only_def s)
qed

lemma sweep_room_orphan:
  assumes "guildId r \<notin> set (guilds v) \<or> fetch_voice_channel x v (guildId r) (channelId r) = None"
    and "dbFault x (DeleteRoom (channelId r)) = None"
    and "distinct (map channelId (rooms v))"
  shows "findRoom (rooms (fst (sweep_room x (v, d, q) r))) (channelId r) = None"
  using assms
  by (auto simp: sweep_room_def sweep_room_try_def drop_orphan_def deleteRoom_def
        fetch_voice_channel_def findRoom_delete_first
      split: option.splits if_splits)

lemma sweep_room_empty:
  assumes "guildId r \<in> set (guilds v)"
    and "fetch_voice_channel x v (guildId r) (channelId r) = Some ch"
    and "members_of v (channelId r) = []"
    and "apiFault x (FetchMember (guildId r) (botId x)) = None"
    and "has_permission x ch (botId x) ManageChannels"
    and "apiFault x (ChannelDelete (channelId r)) = None"
    and "dbFault x (DeleteRoom (channelId r)) = None"
    and "distinct (map channelId (rooms v))"
  shows "channels (fst (sweep_room x (v, d, q) r)) (channelId r) = None
       \<and> findRoom (rooms (fst (sweep_room x (v, d, q) r))) (channelId r) = None"
proof -
  obtain ch' where f: "catch_null (channels_fetch x (FetchChannel (channelId r)) v (guildId r) (channelId r))
        = Some ch'" "chType ch' = GuildVoice" "ch' = ch"
    using assms(2) by (auto simp: fetch_voice_channel_def split: option.splits if_splits)
  show ?thesis
    using assms(1,3-8) f
    by (simp add: sweep_room_def sweep_room_try_def sweep_empty_def sweep_empty_try_def
          catch_null_def members_fetch_def channel_delete_def deleteRoom_def findRoom_delete_first)
qed

lemma sweep_room_populated:
  assumes "guildId r \<in> set (guilds v)"
    and "fetch_voice_channel x v (guildId r) (channelId r) = Some ch"
    and "members_of v (channelId r) \<noteq> []"
  shows "fst (sweep_room x (v, d, q) r)
       = logger Debug (''[VOICEMASTER] Keeping room with ''
                         @ show_nat (length (members_of v (channelId r)))
                         @ '' members: '' @ channelId r) v"
proof -
  obtain ch' where f: "catch_null (channels_fetch x (FetchChannel (channelId r)) v (guildId r) (channelId r))
        = Some ch'" "chType ch' = GuildVoice"
    using assms(2) by (auto simp: fetch_voice_channel_def split: option.splits if_splits)
  show ?thesis
    using assms(1,3) f by (simp add: sweep_room_def sweep_room_try_def)
qed

lemma sweep_row_outcome:
  assumes rs: "distinct (map channelId rs)" "r \<in> set rs"
    and v: "distinct (map channelId (rooms (fst s)))"
  shows "(dbFault x (DeleteRoom (channelId r)) = None
            \<and> (guildId r \<notin> set (guilds (fst s))
                \<or> fetch_voice_channel x (fst s) (guildId r) (channelId r) = None) \<longrightarrow>
          findRoom (rooms (fst (foldl (sweep_room x) s rs))) (channelId r) = None)
       \<and> (guildId r \<in> set (guilds (fst s))
            \<and> fetch_voice_channel x (fst s) (guildId r) (channelId r) = Some ch
            \<and> members_of (fst s) (channelId r) = []
            \<and> apiFault x (FetchMember (guildId r) (botId x)) = None
            \<and> has_permission x ch (botId x) ManageChannels
            \<and> apiFault x (ChannelDelete (channelId r)) = None
            \<and> dbFault x (DeleteRoom (channelId r)) = None \<longrightarrow>
          channels (fst (foldl (sweep_room x) s rs)) (channelId r) = None
          \<and> findRoom (rooms (fst (foldl (sweep_room x) s rs))) (channelId r) = None)
       \<and> (guildId r \<in> set (guilds (fst s))
            \<and> fetch_voice_channel x (fst s) (guildId r) (channelId r) = Some ch
            \<and> members_of (fst s) (channelId r) \<noteq> [] \<longrightarrow>
          channels (fst (foldl (sweep_room x) s rs)) (channelId r) = channels (fst s) (channelId r)
          \<and> findRoom (rooms (fst (foldl (sweep_room x) s rs))) (channelId r)
              = findRoom (rooms (fst s)) (channelId r)
          \<and> members_of (fst (foldl (sweep_room x) s rs)) (channelId r)
              = members_of (fst s) (channelId r))"
proof -
  let ?c = "channelId r"
  obtain pre post where split: "rs = pre @ r # post"
    using rs(2) by (auto dest: split_list)
  have apart: "?c \<notin> channelId ` set pre" "?c \<notin> channelId ` set post"
    using rs(1) by (auto simp: split)
  define s1 where "s1 = foldl (sweep_room x) s pre"
  define s2 where "s2 = sweep_room x s1 r"
  have whole: "foldl (sweep_room x) s rs = foldl (sweep_room x) s2 post"
    by (simp add: split s1_def s2_def)
  obtain v1 d1 q1 where s1: "s1 = (v1, d1, q1)" by (cases s1) auto
  have before: "guilds v1 = guilds (fst s)" "channels v1 ?c = channels (fst s) ?c"
    "findRoom (rooms v1) ?c = findRoom (rooms (fst s)) ?c"
    "members_of v1 ?c = members_of (fst s) ?c" "distinct (map channelId (rooms v1))"
    using sweep_fold_frame [OF apart(1), of x s] v by (simp_all add: s1_def [symmetric] s1)
  have fetch: "fetch_voice_channel x v1 (guildId r) ?c = fetch_voice_channel x (fst s) (guildId r) ?c"
    using fetch_voice_channel_frame [OF before(2)] .
  have after: "channels (fst (foldl (sweep_room x) s rs)) ?c = channels (fst s2) ?c"
    "findRoom (rooms (fst (foldl (sweep_room x) s rs))) ?c = findRoom (rooms (fst s2)) ?c"
    "members_of (fst (foldl (sweep_room x) s rs)) ?c = members_of (fst s2) ?c"
    using sweep_fold_frame [OF apart(2), of x s2] by (simp_all add: whole)
  have orphan: "findRoom (rooms (fst s2)) ?c = None"
    if "dbFault x (DeleteRoom ?c) = None"
      "guildId r \<notin> set (guilds (fst s)) \<or> fetch_voice_channel x (fst s) (guildId r) ?c = None"
    using that sweep_room_orphan [of r v1 x d1 q1] before(1,5) fetch by (simp add: s2_def s1)
  have empty: "channels (fst s2) ?c = None \<and> findRoom (rooms (fst s2)) ?c = None"
    if "guildId r \<in> set (guilds (fst s))" "fetch_voice_channel x (fst s) (guildId r) ?c = Some ch"
      "members_of (fst s) ?c = []" "apiFault x (FetchMember (guildId r) (botId x)) = None"
      "has_permission x ch (botId x) ManageChannels" "apiFault x (ChannelDelete ?c) = None"
      "dbFault x (DeleteRoom ?c) = None"
    using that sweep_room_empty [of r v1 x ch d1 q1] before fetch by (simp add: s2_def s1)
  have populated: "channels (fst s2) ?c = channels (fst s) ?c
      \<and> findRoom (rooms (fst s2)) ?c = findRoom (rooms (fst s)) ?c
      \<and> members_of (fst s2) ?c = members_of (fst s) ?c"
    if "guildId r \<in> set (guilds (fst s))" "fetch_voice_channel x (fst s) (guildId r) ?c = Some ch"
      "members_of (fst s) ?c \<noteq> []"
  proof -
    have g1: "guildId r \<in> set (guilds v1)" using that(1) before(1) by simp
    have c1: "fetch_voice_channel x v1 (guildId r) ?c = Some ch" using that(2) fetch by simp
    have m1: "members_of v1 ?c \<noteq> []" using that(3) before(4) by simp
    have eq: "fst s2 = logger Debug (''[VOICEMASTER] Keeping room with ''
                         @ show_nat (length (members_of v1 ?c))
                         @ '' members: '' @ ?c) v1"
      using sweep_room_populated [OF g1 c1 m1, of d1 q1] by (simp add: s2_def s1)
    have "voice (fst s2) = voice v1" by (simp add: eq)
    then have "members_of (fst s2) ?c = members_of v1 ?c" by (rule members_of_frame)
    then show ?thesis using before(2-4) by (simp add: eq)
  qed
  show ?thesis
    using orphan empty populated by (simp add: after)
qed

lemma findRoom_member:
  "distinct (map channelId rs) \<Longrightarrow> r \<in> set rs \<Longrightarrow> findRoom rs (channelId r) = Some r"
proof (induction rs)
  case Nil
  then show ?case by simp
next
  case (Cons a rs)
  then show ?case by (auto simp: findRoom_def)
qed

text \<open>
  C9, as the code has it. The startup sweep, with the registry read and channel ids unique
  in it, does the following for every row \<open>r\<close>. If the row's guild is not in the client's
  cache, or its channel cannot be fetched, or is not a voice channel, the row is deleted
  (the database accepting the delete). If the channel is a voice channel with no members,
  the bot's member resolves, the bot holds ManageChannels and the platform and the
  database accept the deletes, the channel and the row are deleted. If the channel is a
  voice channel with at least one member, the channel, its members and the row are as they
  were.
\<close>

theorem startup_sweep_reconciles:
  assumes "distinct (map channelId (rooms w))"
    and "dbFault x GetAllRooms = None"
    and "r \<in> set (rooms w)"
  shows "(dbFault x (DeleteRoom (channelId r)) = None
            \<and> (guildId r \<notin> set (guilds w)
                \<or> fetch_voice_channel x w (guildId r) (channelId r) = None) \<longrightarrow>
          findRoom (rooms (cleanupVoiceMasterRooms x w)) (channelId r) = None)
       \<and> (guildId r \<in> set (guilds w)
            \<and> fetch_voice_channel x w (guildId r) (channelId r) = Some ch
            \<and> members_of w (channelId r) = []
            \<and> apiFault x (FetchMember (guildId r) (botId x)) = None
            \<and> has_permission x ch (botId x) ManageChannels
            \<and> apiFault x (ChannelDelete (channelId r)) = None
            \<and> dbFault x (DeleteRoom (channelId r)) = None \<longrightarrow>
          channels (cleanupVoiceMasterRooms x w) (channelId r) = None
          \<and> findRoom (rooms (cleanupVoiceMasterRooms x w)) (channelId r) = None)
       \<and> (guildId r \<in> set (guilds w)
            \<and> fetch_voice_channel x w (guildId r) (channelId r) = Some ch
            \<and> members_of w (channelId r) \<noteq> [] \<longrightarrow>
          channels (cleanupVoiceMasterRooms x w) (channelId r) = channels w (channelId r)
          \<and> findRoom (rooms (cleanupVoiceMasterRooms x w)) (channelId r) = Some r
          \<and> members_of (cleanupVoiceMasterRooms x w) (channelId r) = members_of w (channelId r))"
proof -
  let ?c = "channelId r"
  define w0 where "w0 = logger Info (''[VOICEMASTER] Cleaning up '' @ show_nat (length (rooms w))
                                      @ '' rooms...'') w"
  define s where "s = foldl (sweep_room x) (w0, 0, 0) (rooms w)"
  have nonempty: "length (rooms w) \<noteq> 0" using assms(3) by auto
  have start: "guilds w0 = guilds w" "channels w0 = channels w" "rooms w0 = rooms w"
    "voice w0 = voice w"
    by (simp_all add: w0_def)
  have fetch0: "fetch_voice_channel x w0 (guildId r) ?c = fetch_voice_channel x w (guildId r) ?c"
    using fetch_voice_channel_frame [of w0 ?c w] start(2) by simp
  have mem0: "members_of w0 ?c = members_of w ?c"
    using members_of_frame [OF start(4)] .
  have fin: "channels (cleanupVoiceMasterRooms x w) = channels (fst s)"
    "rooms (cleanupVoiceMasterRooms x w) = rooms (fst s)"
    "voice (cleanupVoiceMasterRooms x w) = voice (fst s)"
    using assms(2) nonempty
    by (simp_all add: cleanupVoiceMasterRooms_def Let_def s_def w0_def split: prod.splits)
  have memf: "members_of (cleanupVoiceMasterRooms x w) ?c = members_of (fst s) ?c"
    using members_of_frame [OF fin(3)] .
  have row: "findRoom (rooms w) ?c = Some r"
    using findRoom_member [OF assms(1,3)] .
  have d0: "distinct (map channelId (rooms (fst (w0, 0::nat, 0::nat))))"
    using assms(1) start(3) by simp
  note outcome = sweep_row_outcome [OF assms(1,3) d0, of x ch, folded s_def]
  show ?thesis
    using outcome row by (simp add: fin memf start fetch0 mem0)
qed

theorem startup_sweep_reconciles_witness:
  "findRoom (rooms (cleanupVoiceMasterRooms calm world_restart)) ''c7'' = None
   \<and> channels (cleanupVoiceMasterRooms calm world_restart) ''c2'' = None
   \<and> findRoom (rooms (cleanupVoiceMasterRooms calm world_restart)) ''c2'' = None
   \<and> channels (cleanupVoiceMasterRooms calm world_restart) ''c1'' = channels world_restart ''c1''
   \<and> findRoom (rooms (cleanupVoiceMasterRooms calm world_restart)) ''c1'' = Some room1
   \<and> members_of (cleanupVoiceMasterRooms calm world_restart) ''c1'' = [''u1'', ''u2'']"
proof -
  have d: "distinct (map channelId (rooms world_restart))"
    by (simp add: world_restart_def room1_def room2_def room7_def)
  have a: "dbFault calm GetAllRooms = None" by (simp add: calm_def)
  have m: "room7 \<in> set (rooms world_restart)" "room2 \<in> set (rooms world_restart)"
    "room1 \<in> set (rooms world_restart)"
    by (simp_all add: world_restart_def)
  have ids: "channelId room7 = ''c7''" "channelId room2 = ''c2''" "channelId room1 = ''c1''"
    "guildId room7 = ''g1''" "guildId room2 = ''g1''" "guildId room1 = ''g1''"
    by (simp_all add: room1_def room2_def room7_def)
  have orphan: "dbFault calm (DeleteRoom (channelId room7)) = None
      \<and> (guildId room7 \<notin> set (guilds world_restart)
          \<or> fetch_voice_channel calm world_restart (guildId room7) (channelId room7) = None)"
    by (simp add: ids calm_def fetch_voice_channel_def channels_fetch_def catch_null_def
          world_restart_def world1_def)
  have empty: "guildId room2 \<in> set (guilds world_restart)
      \<and> fetch_voice_channel calm world_restart (guildId room2) (channelId room2) = Some voice_chan
      \<and> members_of world_restart (channelId room2) = []
      \<and> apiFault calm (FetchMember (guildId room2) (botId calm)) = None
      \<and> has_permission calm voice_chan (botId calm) ManageChannels
      \<and> apiFault calm (ChannelDelete (channelId room2)) = None
      \<and> dbFault calm (DeleteRoom (channelId room2)) = None"
    by (simp add: ids calm_def fetch_voice_channel_def channels_fetch_def catch_null_def
          world_restart_def world1_def voice_chan_def members_of_def has_permission_def)
  have populated: "guildId room1 \<in> set (guilds world_restart)
      \<and> fetch_voice_channel calm world_restart (guildId room1) (channelId room1) = Some voice_chan
      \<and> members_of world_restart (channelId room1) \<noteq> []"
    by (simp add: ids calm_def fetch_voice_channel_def channels_fetch_def catch_null_def
          world_restart_def world1_def voice_chan_def members_of_def)
  have before: "members_of world_restart ''c1'' = [''u1'', ''u2'']"
    by (simp add: world_restart_def world1_def members_of_def)
  show ?thesis
    using startup_sweep_reconciles [OF d a m(1), of voice_chan]
      startup_sweep_reconciles [OF d a m(2), of voice_chan]
      startup_sweep_reconciles [OF d a m(3), of voice_chan]
      orphan empty populated before
    by (simp add: ids)
qed

text \<open>
  C9 as stated fails for empty rooms the bot cannot delete. Without ManageChannels on the
  channel the sweep deletes the row and leaves the channel; when the platform rejects the
  deletion and the channel is still there, it keeps both.
\<close>

theorem empty_room_channel_survives_sweep:
  "members_of world_empty1 ''c1'' = []
   \<and> findRoom (rooms (cleanupVoiceMasterRooms bot_cannot_manage world_empty1)) ''c1'' = None
   \<and> channels (cleanupVoiceMasterRooms bot_cannot_manage world_empty1) ''c1'' = Some voice_chan
   \<and> findRoom (rooms (cleanupVoiceMasterRooms rate_limited world_empty1)) ''c1'' = Some room1
   \<and> channels (cleanupVoiceMasterRooms rate_limited world_empty1) ''c1'' = Some voice_chan"
  by (simp add: cleanupVoiceMasterRooms_def sweep_room_def sweep_room_try_def sweep_empty_def
        sweep_empty_try_def catch_null_def channels_fetch_def members_fetch_def has_permission_def
        channel_delete_def deleteRoom_def members_of_def findRoom_def
        world_empty1_def world1_def room1_def voice_chan_def bot_cannot_manage_def rate_limited_def
        calm_def Let_def)

end
